theory Spec2Isabelle
  imports Complex_Main
begin

section \<open>Shared vocabulary of the two notebooks\<close>

text \<open>
  The repository holds two notebooks: the 2D chest X-ray notebook (\<open>cnn_basics.ipynb\<close>,
  with the class \<open>DicomDataset\<close>, the chain \<open>data_transform\<close> and a one-phase
  \<open>train_model\<close>) and the 3D MRI notebook (\<open>3d_classification.ipynb\<close>, with the chains
  \<open>train_transforms\<close>, \<open>val_transforms\<close> and a two-phase \<open>train_model\<close>). Both
  notebooks name their training function \<open>train_model\<close>; here they are
  \<open>train_model_2d\<close> and \<open>train_model_3d\<close>.

  Python floats are read as real numbers: a loss, an accuracy and the best metric are
  of type \<open>real\<close>, and sums are exact. The exceptions Python raises are values of the
  type \<open>error\<close>.
\<close>

datatype error =
    ZeroDivisionError
  | AttributeError
  | IndexError
  | KeyError string
  | FileNotFoundError string
  | TypeError
  | ValueError
  | RuntimeError
  | NotImplementedError

datatype phase = Train | Val

text \<open>
  What the loops print. A line carries the values that are formatted into it, not the
  formatted text: \<open>PhaseStats ph l a\<close> is \<open>'{} Loss: {:.4f} Acc: {:.4f}'\<close> of the 3D
  notebook, \<open>EpochStats l a\<close> is \<open>'Loss: {:.4f} Acc: {:.4f}'\<close> of the 2D notebook.
\<close>

datatype line =
    EpochBanner nat nat
  | Dashes
  | PhaseStats phase real real
  | EpochStats real real
  | SavedBest
  | Complete real

text \<open>
  An object handed to \<open>torch.save\<close>. \<open>StateDict m\<close> is the value of the call
  \<open>model.state_dict()\<close>: the mapping from parameter names to the current values of the
  parameters \<open>m\<close>. \<open>BoundMethod m name\<close> is the value of the attribute reference
  \<open>model.name\<close> for a method \<open>name\<close>: the method object bound to the module, not the
  result of calling it.
\<close>

datatype 'm pyobj = StateDict 'm | BoundMethod 'm string

text \<open>
  The framework, as far as the loops use it. The network, the loss function, automatic
  differentiation and the optimizer are not code of this repository; they are the
  fields of a record, and every theorem holds for all of them.
  \<^item> \<open>model_fwd tr ge m b\<close>: \<open>outputs = model(inputs)\<close> for the parameters \<open>m\<close>,
    with the module in training mode iff \<open>tr\<close> and gradient tracking enabled iff
    \<open>ge\<close>;
  \<^item> \<open>criterion y b\<close>: \<open>loss = criterion(outputs, labels)\<close>, read by \<open>loss.item()\<close>;
  \<^item> \<open>corrects y b\<close>: \<open>torch.sum(preds == labels.data)\<close> with
    \<open>_, preds = torch.max(outputs, 1)\<close>;
  \<^item> \<open>size0 b\<close>: \<open>inputs.size(0)\<close>;
  \<^item> \<open>zero_grad g\<close>: \<open>optimizer.zero_grad()\<close>;
  \<^item> \<open>backward m b g\<close>: \<open>loss.backward()\<close>, which adds to the gradients \<open>g\<close>;
  \<^item> \<open>opt_step o m g\<close>: \<open>optimizer.step()\<close>, the only operation that returns new
    parameters.
\<close>

record ('m, 'o, 'g, 'b, 'y) torch =
  model_fwd :: "bool \<Rightarrow> bool \<Rightarrow> 'm \<Rightarrow> 'b \<Rightarrow> 'y"
  criterion :: "'y \<Rightarrow> 'b \<Rightarrow> real"
  corrects :: "'y \<Rightarrow> 'b \<Rightarrow> nat"
  size0 :: "'b \<Rightarrow> nat"
  zero_grad :: "'g \<Rightarrow> 'g"
  backward :: "'m \<Rightarrow> 'b \<Rightarrow> 'g \<Rightarrow> 'g"
  opt_step :: "'o \<Rightarrow> 'm \<Rightarrow> 'g \<Rightarrow> 'o \<times> 'm"

text \<open>
  The objects both loops mutate: the parameters of \<open>model\<close>, the state of \<open>optimizer\<close>,
  the gradients, the mode flag set by \<open>model.train()\<close> and \<open>model.eval()\<close>, and the
  lines printed so far.
\<close>

record ('m, 'o, 'g) machine =
  params :: 'm
  opt_state :: 'o
  grads :: 'g
  training :: bool
  stdout :: "line list"

section \<open>The 3D notebook: \<open>train_model\<close>\<close>

text \<open>
  The state of the 3D loop adds its locals \<open>best_metric\<close> and \<open>iter_num\<close>, the paths
  that exist on disk, and the calls of \<open>torch.save\<close> made so far, oldest first (the
  content of a file is the object of the last call for its path).
\<close>

record ('m, 'o, 'g) run3d = "('m, 'o, 'g) machine" +
  best_metric :: real
  iter_num :: "phase \<Rightarrow> nat"
  paths :: "string set"
  saved :: "(string \<times> 'm pyobj) list"

text \<open>
  The body of \<open>for inputs, labels in dataloaders[phase]\<close>, for one batch. The
  accumulators \<open>running_loss\<close> and \<open>running_corrects\<close> travel with the state. The
  forward pass runs under \<open>torch.set_grad_enabled(phase == 'train')\<close>.
\<close>

definition batch_step_3d ::
  "('m, 'o, 'g, 'b, 'y) torch \<Rightarrow> phase \<Rightarrow> 'b \<Rightarrow>
   ('m, 'o, 'g) run3d \<times> real \<times> nat \<Rightarrow> ('m, 'o, 'g) run3d \<times> real \<times> nat" where
  "batch_step_3d T ph b acc =
     (case acc of (s, running_loss, running_corrects) \<Rightarrow>
        let s1 = s\<lparr>grads := zero_grad T (grads s)\<rparr>;
            outputs = model_fwd T (training s1) (ph = Train) (params s1) b;
            loss = criterion T outputs b;
            s2 = (if ph = Train then
                    let g = backward T (params s1) b (grads s1);
                        om = opt_step T (opt_state s1) (params s1) g
                    in s1\<lparr>grads := g, opt_state := fst om, params := snd om\<rparr>
                  else s1);
            s3 = s2\<lparr>iter_num := (iter_num s2)(ph := iter_num s2 ph + 1)\<rparr>
        in (s3, running_loss + loss * real (size0 T b),
            running_corrects + corrects T outputs b))"

fun run_batches_3d ::
  "('m, 'o, 'g, 'b, 'y) torch \<Rightarrow> phase \<Rightarrow> 'b list \<Rightarrow>
   ('m, 'o, 'g) run3d \<times> real \<times> nat \<Rightarrow> ('m, 'o, 'g) run3d \<times> real \<times> nat" where
  "run_batches_3d T ph [] acc = acc"
| "run_batches_3d T ph (b # bs) acc = run_batches_3d T ph bs (batch_step_3d T ph b acc)"

text \<open>
  One phase up to the printed statistics: the mode is set, the accumulators start at
  zero, the batches run, and the two averages are taken over \<open>dataset_sizes[phase]\<close>.
  \<open>running_loss\<close> is a Python float, so a dataset size of zero raises
  ZeroDivisionError; \<open>running_corrects\<close> is still the integer \<open>0\<close> when the loader
  yielded no batch, and \<open>.double()\<close> on it raises AttributeError. The result is the
  state with the pair \<open>(epoch_loss, epoch_acc)\<close>.
\<close>

definition phase_stats ::
  "('m, 'o, 'g, 'b, 'y) torch \<Rightarrow> (phase \<Rightarrow> nat \<Rightarrow> 'b list) \<Rightarrow> (phase \<Rightarrow> nat) \<Rightarrow>
   nat \<Rightarrow> phase \<Rightarrow> ('m, 'o, 'g) run3d \<Rightarrow> error + (('m, 'o, 'g) run3d \<times> real \<times> real)" where
  "phase_stats T dataloaders dataset_sizes epoch ph s =
     (let s1 = s\<lparr>training := (ph = Train)\<rparr>;
          batches = dataloaders ph epoch;
          r = run_batches_3d T ph batches (s1, 0, 0);
          s2 = fst r; running_loss = fst (snd r); running_corrects = snd (snd r)
      in if dataset_sizes ph = 0 then Inl ZeroDivisionError
         else if batches = [] then Inl AttributeError
         else
           let epoch_loss = running_loss / real (dataset_sizes ph);
               epoch_acc = real running_corrects / real (dataset_sizes ph)
           in Inr (s2\<lparr>stdout := stdout s2 @ [PhaseStats ph epoch_loss epoch_acc]\<rparr>,
                   epoch_loss, epoch_acc))"

text \<open>
  \<open>if epoch_acc > best_metric: ...\<close>, the block under \<open>if phase == 'val'\<close>. The object
  given to \<open>torch.save\<close> is the attribute \<open>model.state_dict\<close>, written in the source
  without the call parentheses.
\<close>

definition checkpoint :: "('m, 'o, 'g) run3d \<Rightarrow> real \<Rightarrow> ('m, 'o, 'g) run3d" where
  "checkpoint s epoch_acc =
     (if epoch_acc > best_metric s then
        let s1 = s\<lparr>best_metric := epoch_acc\<rparr>;
            s2 = (if ''./models'' \<notin> paths s1
                  then s1\<lparr>paths := insert ''./models'' (paths s1)\<rparr> else s1);
            s3 = s2\<lparr>saved := saved s2 @
                   [(''models/3d_classification_model.pth'',
                     BoundMethod (params s2) ''state_dict'')]\<rparr>
        in s3\<lparr>stdout := stdout s3 @ [SavedBest]\<rparr>
      else s)"

definition run_phase ::
  "('m, 'o, 'g, 'b, 'y) torch \<Rightarrow> (phase \<Rightarrow> nat \<Rightarrow> 'b list) \<Rightarrow> (phase \<Rightarrow> nat) \<Rightarrow>
   nat \<Rightarrow> phase \<Rightarrow> ('m, 'o, 'g) run3d \<Rightarrow> error + ('m, 'o, 'g) run3d" where
  "run_phase T dataloaders dataset_sizes epoch ph s =
     (case phase_stats T dataloaders dataset_sizes epoch ph s of
        Inl e \<Rightarrow> Inl e
      | Inr (s', epoch_loss, epoch_acc) \<Rightarrow>
          Inr (if ph = Val then checkpoint s' epoch_acc else s'))"

text \<open>\<open>for phase in ['train', 'val']\<close>: an exception ends the run.\<close>

fun run_phases ::
  "('m, 'o, 'g, 'b, 'y) torch \<Rightarrow> (phase \<Rightarrow> nat \<Rightarrow> 'b list) \<Rightarrow> (phase \<Rightarrow> nat) \<Rightarrow>
   nat \<Rightarrow> phase list \<Rightarrow> ('m, 'o, 'g) run3d \<Rightarrow> error + ('m, 'o, 'g) run3d" where
  "run_phases T dataloaders dataset_sizes epoch [] s = Inr s"
| "run_phases T dataloaders dataset_sizes epoch (ph # phs) s =
     (case run_phase T dataloaders dataset_sizes epoch ph s of
        Inl e \<Rightarrow> Inl e
      | Inr s' \<Rightarrow> run_phases T dataloaders dataset_sizes epoch phs s')"

definition epoch_body ::
  "('m, 'o, 'g, 'b, 'y) torch \<Rightarrow> (phase \<Rightarrow> nat \<Rightarrow> 'b list) \<Rightarrow> (phase \<Rightarrow> nat) \<Rightarrow>
   nat \<Rightarrow> nat \<Rightarrow> ('m, 'o, 'g) run3d \<Rightarrow> error + ('m, 'o, 'g) run3d" where
  "epoch_body T dataloaders dataset_sizes num_epochs epoch s =
     run_phases T dataloaders dataset_sizes epoch [Train, Val]
       (s\<lparr>stdout := stdout s @ [EpochBanner epoch (num_epochs - 1), Dashes]\<rparr>)"

text \<open>\<open>for epoch in range(num_epochs)\<close>, over a list of epoch numbers.\<close>

fun epochs_loop ::
  "('m, 'o, 'g, 'b, 'y) torch \<Rightarrow> (phase \<Rightarrow> nat \<Rightarrow> 'b list) \<Rightarrow> (phase \<Rightarrow> nat) \<Rightarrow>
   nat \<Rightarrow> nat list \<Rightarrow> ('m, 'o, 'g) run3d \<Rightarrow> error + ('m, 'o, 'g) run3d" where
  "epochs_loop T dataloaders dataset_sizes num_epochs [] s = Inr s"
| "epochs_loop T dataloaders dataset_sizes num_epochs (epoch # es) s =
     (case epoch_body T dataloaders dataset_sizes num_epochs epoch s of
        Inl e \<Rightarrow> Inl e
      | Inr s' \<Rightarrow> epochs_loop T dataloaders dataset_sizes num_epochs es s')"

text \<open>
  The locals as \<open>train_model\<close> sets them before the loop. The caller's objects and the
  disk are the machine part and the fields \<open>paths\<close> and \<open>saved\<close> of the argument.
\<close>

definition init_3d :: "('m, 'o, 'g) run3d \<Rightarrow> ('m, 'o, 'g) run3d" where
  "init_3d s = s\<lparr>best_metric := - 1, iter_num := (\<lambda>ph. 0)\<rparr>"

definition train_model_3d ::
  "('m, 'o, 'g, 'b, 'y) torch \<Rightarrow> (phase \<Rightarrow> nat \<Rightarrow> 'b list) \<Rightarrow> (phase \<Rightarrow> nat) \<Rightarrow>
   nat \<Rightarrow> ('m, 'o, 'g) run3d \<Rightarrow> error + ('m, 'o, 'g) run3d" where
  "train_model_3d T dataloaders dataset_sizes num_epochs s =
     (case epochs_loop T dataloaders dataset_sizes num_epochs [0..<num_epochs] (init_3d s) of
        Inl e \<Rightarrow> Inl e
      | Inr s' \<Rightarrow> Inr (s'\<lparr>stdout := stdout s' @ [Complete (best_metric s')]\<rparr>))"


subsection \<open>Observations on a run of the 3D loop\<close>

text \<open>
  The validation accuracies a run has printed, in order: the last field of every
  \<open>'val Loss: ... Acc: ...'\<close> line.
\<close>

definition val_accs :: "line list \<Rightarrow> real list" where
  "val_accs ls = concat (map (\<lambda>l. case l of PhaseStats Val x a \<Rightarrow> [a] | _ \<Rightarrow> []) ls)"

text \<open>
  The checkpoint rule in the words of the specification: the accuracy of epoch \<open>i\<close>
  (counted from 0) strictly exceeds the accuracy of every earlier epoch.
\<close>

definition strict_improvement :: "real list \<Rightarrow> nat \<Rightarrow> bool" where
  "strict_improvement accs i = (\<forall>j<i. accs ! j < accs ! i)"

text \<open>
  The per-batch values a run of one phase logs: \<open>loss.item()\<close> and \<open>inputs.size(0)\<close> of
  every batch, each computed in the state the loop has reached when the batch arrives.
\<close>

fun batch_log_3d ::
  "('m, 'o, 'g, 'b, 'y) torch \<Rightarrow> phase \<Rightarrow> 'b list \<Rightarrow>
   ('m, 'o, 'g) run3d \<times> real \<times> nat \<Rightarrow> (real \<times> nat) list" where
  "batch_log_3d T ph [] acc = []"
| "batch_log_3d T ph (b # bs) acc =
     (criterion T (model_fwd T (training (fst acc)) (ph = Train) (params (fst acc)) b) b,
      size0 T b) # batch_log_3d T ph bs (batch_step_3d T ph b acc)"

text \<open>
  The length-weighted mean of the specification: every batch's mean loss times the
  batch's size, summed, over the dataset size.
\<close>

definition weighted_mean_loss :: "(real \<times> nat) list \<Rightarrow> nat \<Rightarrow> real" where
  "weighted_mean_loss logged n = (\<Sum>p\<leftarrow>logged. fst p * real (snd p)) / real n"

section \<open>The 2D notebook: \<open>train_model\<close>\<close>

text \<open>
  The 2D loop has one phase, sets the training mode once and never changes the
  gradient mode; its local \<open>loss_over_time\<close> is its return value. The dataset size it
  divides by is \<open>len(train_dataset)\<close> of the notebook's global \<open>train_dataset\<close>, here
  the argument \<open>len_train_dataset\<close>; \<open>loader epoch\<close> is the list of batches the
  argument \<open>loader\<close> yields in that epoch.
\<close>

record ('m, 'o, 'g) run2d = "('m, 'o, 'g) machine" +
  loss_over_time :: "real list"

text \<open>
  The body of \<open>for i, data in enumerate(loader)\<close>. The source adds to \<open>running_loss\<close>
  twice: first \<open>loss.item()\<close>, then \<open>loss.item() * inputs.size(0)\<close>.
\<close>

definition batch_step_2d ::
  "('m, 'o, 'g, 'b, 'y) torch \<Rightarrow> 'b \<Rightarrow>
   ('m, 'o, 'g) run2d \<times> real \<times> nat \<Rightarrow> ('m, 'o, 'g) run2d \<times> real \<times> nat" where
  "batch_step_2d T b acc =
     (case acc of (s, running_loss, running_corrects) \<Rightarrow>
        let s1 = s\<lparr>grads := zero_grad T (grads s)\<rparr>;
            outputs = model_fwd T (training s1) True (params s1) b;
            loss = criterion T outputs b;
            g = backward T (params s1) b (grads s1);
            om = opt_step T (opt_state s1) (params s1) g;
            s2 = s1\<lparr>grads := g, opt_state := fst om, params := snd om\<rparr>;
            running_loss1 = running_loss + loss;
            running_loss2 = running_loss1 + loss * real (size0 T b)
        in (s2, running_loss2, running_corrects + corrects T outputs b))"

fun run_batches_2d ::
  "('m, 'o, 'g, 'b, 'y) torch \<Rightarrow> 'b list \<Rightarrow>
   ('m, 'o, 'g) run2d \<times> real \<times> nat \<Rightarrow> ('m, 'o, 'g) run2d \<times> real \<times> nat" where
  "run_batches_2d T [] acc = acc"
| "run_batches_2d T (b # bs) acc = run_batches_2d T bs (batch_step_2d T b acc)"

text \<open>
  One epoch, with the pair \<open>(epoch_loss, epoch_acc)\<close> it prints. The two exceptions are
  those of the 3D loop: a float divided by a zero length, and \<open>.double()\<close> on the
  integer \<open>0\<close> when the loader yielded nothing.
\<close>

definition epoch_stats_2d ::
  "('m, 'o, 'g, 'b, 'y) torch \<Rightarrow> (nat \<Rightarrow> 'b list) \<Rightarrow> nat \<Rightarrow> nat \<Rightarrow>
   ('m, 'o, 'g) run2d \<Rightarrow> error + (('m, 'o, 'g) run2d \<times> real \<times> real)" where
  "epoch_stats_2d T loader len_train_dataset epoch s =
     (let batches = loader epoch;
          r = run_batches_2d T batches (s, 0, 0);
          s2 = fst r; running_loss = fst (snd r); running_corrects = snd (snd r)
      in if len_train_dataset = 0 then Inl ZeroDivisionError
         else if batches = [] then Inl AttributeError
         else
           let epoch_loss = running_loss / real len_train_dataset;
               epoch_acc = real running_corrects / real len_train_dataset
           in Inr (s2\<lparr>stdout := stdout s2 @ [EpochStats epoch_loss epoch_acc],
                      loss_over_time := loss_over_time s2 @ [epoch_loss]\<rparr>,
                   epoch_loss, epoch_acc))"

fun epochs_loop_2d ::
  "('m, 'o, 'g, 'b, 'y) torch \<Rightarrow> (nat \<Rightarrow> 'b list) \<Rightarrow> nat \<Rightarrow> nat list \<Rightarrow>
   ('m, 'o, 'g) run2d \<Rightarrow> error + ('m, 'o, 'g) run2d" where
  "epochs_loop_2d T loader len_train_dataset [] s = Inr s"
| "epochs_loop_2d T loader len_train_dataset (epoch # es) s =
     (case epoch_stats_2d T loader len_train_dataset epoch s of
        Inl e \<Rightarrow> Inl e
      | Inr (s', epoch_loss, epoch_acc) \<Rightarrow> epochs_loop_2d T loader len_train_dataset es s')"

definition train_model_2d ::
  "('m, 'o, 'g, 'b, 'y) torch \<Rightarrow> (nat \<Rightarrow> 'b list) \<Rightarrow> nat \<Rightarrow> nat \<Rightarrow>
   ('m, 'o, 'g) run2d \<Rightarrow> error + ('m, 'o, 'g) run2d" where
  "train_model_2d T loader len_train_dataset n_epochs s =
     epochs_loop_2d T loader len_train_dataset [0..<n_epochs]
       (s\<lparr>loss_over_time := [], training := True\<rparr>)"

text \<open>The per-batch values one epoch of the 2D loop logs.\<close>

fun batch_log_2d ::
  "('m, 'o, 'g, 'b, 'y) torch \<Rightarrow> 'b list \<Rightarrow>
   ('m, 'o, 'g) run2d \<times> real \<times> nat \<Rightarrow> (real \<times> nat) list" where
  "batch_log_2d T [] acc = []"
| "batch_log_2d T (b # bs) acc =
     (criterion T (model_fwd T (training (fst acc)) True (params (fst acc)) b) b,
      size0 T b) # batch_log_2d T bs (batch_step_2d T b acc)"


section \<open>The 2D notebook: class mapping, \<open>data_transform\<close> and \<open>DicomDataset\<close>\<close>

text \<open>
  A dictionary built by a comprehension: the pairs are stored in order, a later pair
  replacing an earlier one with the same key.
\<close>

definition dict_of :: "('k \<times> 'v) list \<Rightarrow> ('k \<rightharpoonup> 'v)" where
  "dict_of kvs = fold (\<lambda>kv m. m(fst kv \<mapsto> snd kv)) kvs Map.empty"

definition classes :: "string list" where
  "classes = [''No Pneumothorax'', ''Pneumothorax'']"

text \<open>
  \<open>idx_to_class = {i:j for i,j in enumerate(classes)}\<close> and
  \<open>class_to_idx = {v:k for k,v in idx_to_class.items()}\<close>, for any list of class names.
  The keys of \<open>idx_to_class\<close> are distinct, so its items are the enumeration itself.
\<close>

definition idx_to_class :: "string list \<Rightarrow> (nat \<rightharpoonup> string)" where
  "idx_to_class cs = dict_of (enumerate 0 cs)"

definition class_to_idx :: "string list \<Rightarrow> (string \<rightharpoonup> nat)" where
  "class_to_idx cs = dict_of (map (\<lambda>kv. (snd kv, fst kv)) (enumerate 0 cs))"

text \<open>
  Images are modelled by their shape and the type of their values; the values
  themselves are left out. \<open>dtype\<close> lists the element types of a pixel array and of a
  tensor that occur here. \<open>PIL mode w h\<close> is a single-band PIL image of size \<open>(w, h)\<close>
  in one of the modes \<open>'L'\<close> (8-bit), \<open>'I;16'\<close> (16-bit unsigned), \<open>'I'\<close> (32-bit signed)
  and \<open>'F'\<close> (32-bit float); \<open>Tensor dt shape\<close> is a torch tensor.
\<close>

datatype dtype = UInt8 | UInt16 | Int16 | Int32 | Float32

datatype pil_mode = Mode_L | Mode_I16 | Mode_I | Mode_F

datatype image = PIL pil_mode nat nat | Tensor dtype "nat list"

text \<open>
  The three torchvision transforms the notebook uses, with the shapes, element types
  and exceptions of the library.
  \<^item> \<open>transforms.Resize(size)\<close> with an integer matches the shorter edge to \<open>size\<close> and
    scales the longer edge by the same ratio, \<open>int(size * long / short)\<close>; an image
    whose shorter edge already is \<open>size\<close> is returned as it is. A tensor is resized in
    its last two dimensions and must have three or four dimensions for that.
  \<^item> \<open>transforms.ToTensor()\<close> turns a PIL image of size \<open>(w, h)\<close> into a tensor of shape
    \<open>[1, h, w]\<close>: a float tensor with values in \<open>[0, 1]\<close> for mode \<open>'L'\<close>, an unscaled
    tensor of 16-bit integers for \<open>'I;16'\<close>, of 32-bit integers for \<open>'I'\<close>, of floats for
    \<open>'F'\<close>. It raises TypeError on a tensor.
  \<^item> \<open>transforms.Normalize(mean, std)\<close> raises TypeError on anything but a float
    tensor; it keeps the shape of a float tensor with at least three dimensions whose
    channel count fits \<open>mean\<close> and \<open>std\<close>, and raises otherwise.
\<close>

datatype tv_transform =
    transforms_Resize nat
  | transforms_ToTensor
  | transforms_Normalize "real list" "real list"

definition resize_edges :: "nat \<Rightarrow> nat \<Rightarrow> nat \<Rightarrow> error + (nat \<times> nat)" where
  "resize_edges sz w h =
     (let short = (if w \<le> h then w else h); long = (if w \<le> h then h else w)
      in if short = sz then Inr (w, h)
         else if short = 0 then Inl ZeroDivisionError
         else let new_short = sz; new_long = sz * long div short
              in Inr (if w \<le> h then (new_short, new_long) else (new_long, new_short)))"

fun to_tensor_dtype :: "pil_mode \<Rightarrow> dtype" where
  "to_tensor_dtype Mode_L = Float32"
| "to_tensor_dtype Mode_I16 = Int16"
| "to_tensor_dtype Mode_I = Int32"
| "to_tensor_dtype Mode_F = Float32"

fun tv_apply :: "tv_transform \<Rightarrow> image \<Rightarrow> error + image" where
  "tv_apply (transforms_Resize sz) (PIL mode w h) =
     (case resize_edges sz w h of Inl e \<Rightarrow> Inl e | Inr (w', h') \<Rightarrow> Inr (PIL mode w' h'))"
| "tv_apply (transforms_Resize sz) (Tensor dt shape) =
     (if length shape < 2 then Inl TypeError
      else case resize_edges sz (last shape) (last (butlast shape)) of
             Inl e \<Rightarrow> Inl e
           | Inr (w', h') \<Rightarrow>
               if min (last shape) (last (butlast shape)) = sz then Inr (Tensor dt shape)
               else if length shape = 3 \<or> length shape = 4
                 then Inr (Tensor dt (butlast (butlast shape) @ [h', w']))
               else Inl ValueError)"
| "tv_apply transforms_ToTensor (PIL mode w h) = Inr (Tensor (to_tensor_dtype mode) [1, h, w])"
| "tv_apply transforms_ToTensor (Tensor dt shape) = Inl TypeError"
| "tv_apply (transforms_Normalize mean std) (PIL mode w h) = Inl TypeError"
| "tv_apply (transforms_Normalize mean std) (Tensor dt shape) =
     (if dt \<noteq> Float32 then Inl TypeError
      else if length shape < 3 then Inl ValueError
      else if 0 \<in> set std then Inl ValueError
      else if length mean \<in> {1, shape ! (length shape - 3)}
            \<and> length std \<in> {1, shape ! (length shape - 3)} then Inr (Tensor dt shape)
      else Inl RuntimeError)"

text \<open>
  \<open>transforms.Compose(ts)\<close> is the object holding the list \<open>ts\<close>; calling it runs
  \<open>for t in self.transforms: img = t(img)\<close>.
\<close>

datatype tv_pipeline = transforms_Compose "tv_transform list"

fun tv_steps :: "tv_pipeline \<Rightarrow> tv_transform list" where
  "tv_steps (transforms_Compose ts) = ts"

fun tv_run :: "tv_transform list \<Rightarrow> image \<Rightarrow> error + image" where
  "tv_run [] img = Inr img"
| "tv_run (t # ts) img = (case tv_apply t img of Inl e \<Rightarrow> Inl e | Inr img' \<Rightarrow> tv_run ts img')"

definition tv_call :: "tv_pipeline \<Rightarrow> image \<Rightarrow> error + image" where
  "tv_call p img = tv_run (tv_steps p) img"

definition data_transform :: tv_pipeline where
  "data_transform =
     transforms_Compose
       [transforms_Resize 224, transforms_ToTensor, transforms_Normalize [0.5] [0.5]]"

text \<open>
  \<open>DicomDataset\<close>. \<open>labels_df\<close> is the table \<open>pd.read_csv(csv_path)\<close> returns, a list of
  rows (image name, class name); \<open>ds_classes\<close> is the attribute \<open>self.classes\<close>, the
  distinct class names in order of first appearance.
\<close>

record DicomDataset =
  labels_df :: "(string \<times> string) list"
  transform :: "tv_pipeline option"
  data_dir :: string
  ds_classes :: "string list"
  classmapper :: "string \<rightharpoonup> nat"

definition DicomDataset_init ::
  "(string \<times> string) list \<Rightarrow> string \<Rightarrow> (string \<rightharpoonup> nat) \<Rightarrow> tv_pipeline option \<Rightarrow> DicomDataset" where
  "DicomDataset_init csv_rows dir class_mapper tr =
     \<lparr>labels_df = csv_rows, transform = tr, data_dir = dir,
      ds_classes = rev (remdups (rev (map snd csv_rows))), classmapper = class_mapper\<rparr>"

definition DicomDataset_len :: "DicomDataset \<Rightarrow> nat" where
  "DicomDataset_len self = length (labels_df self)"

text \<open>
  \<open>labels_df.iloc[idx, col]\<close>: a negative position counts from the end, a position out
  of bounds raises IndexError.
\<close>

definition iloc :: "(string \<times> string) list \<Rightarrow> int \<Rightarrow> nat \<Rightarrow> error + string" where
  "iloc df idx col =
     (let n = int (length df); j = (if idx < 0 then n + idx else idx)
      in if j < 0 \<or> n \<le> j \<or> 2 \<le> col then Inl IndexError
         else Inr (if col = 0 then fst (df ! nat j) else snd (df ! nat j)))"

text \<open>\<open>os.path.join\<close> of two components, on a POSIX system.\<close>

definition os_path_join :: "string \<Rightarrow> string \<Rightarrow> string" where
  "os_path_join a b =
     (if b \<noteq> [] \<and> hd b = CHR ''/'' then b
      else if a = [] \<or> last a = CHR ''/'' then a @ b
      else a @ ''/'' @ b)"

text \<open>
  The disk, as far as the dataset reads it: \<open>files path\<close> is the pixel array of the
  DICOM file at \<open>path\<close>, a two-dimensional array given by its numbers of rows and
  columns and its element type, and \<open>None\<close> where \<open>pydicom.dcmread\<close> cannot read a file.
\<close>

record pixel_array =
  px_rows :: nat
  px_cols :: nat
  px_dtype :: dtype

definition dcmread :: "(string \<rightharpoonup> pixel_array) \<Rightarrow> string \<Rightarrow> error + pixel_array" where
  "dcmread files path =
     (case files path of None \<Rightarrow> Inl (FileNotFoundError path) | Some px \<Rightarrow> Inr px)"

text \<open>
  \<open>Image.fromarray\<close> chooses the mode of the image by the element type of the array:
  \<open>'L'\<close> for 8-bit unsigned, \<open>'I;16'\<close> for 16-bit unsigned, \<open>'I'\<close> for 16-bit and 32-bit
  signed, \<open>'F'\<close> for float. The size of the image is (columns, rows).
\<close>

fun fromarray_mode :: "dtype \<Rightarrow> pil_mode" where
  "fromarray_mode UInt8 = Mode_L"
| "fromarray_mode UInt16 = Mode_I16"
| "fromarray_mode Int16 = Mode_I"
| "fromarray_mode Int32 = Mode_I"
| "fromarray_mode Float32 = Mode_F"

definition Image_fromarray :: "pixel_array \<Rightarrow> image" where
  "Image_fromarray px = PIL (fromarray_mode (px_dtype px)) (px_cols px) (px_rows px)"

text \<open>\<open>DicomDataset.__getitem__\<close>: the image is loaded first, the label second.\<close>

definition DicomDataset_getitem ::
  "(string \<rightharpoonup> pixel_array) \<Rightarrow> DicomDataset \<Rightarrow> int \<Rightarrow> error + (image \<times> nat)" where
  "DicomDataset_getitem files self idx =
     (case iloc (labels_df self) idx 0 of
        Inl e \<Rightarrow> Inl e
      | Inr name \<Rightarrow>
          let img_path = os_path_join (data_dir self) name in
          (case dcmread files img_path of
             Inl e \<Rightarrow> Inl e
           | Inr px \<Rightarrow>
               let image = Image_fromarray px in
               (case iloc (labels_df self) idx 1 of
                  Inl e \<Rightarrow> Inl e
                | Inr label_name \<Rightarrow>
                    (case classmapper self label_name of
                       None \<Rightarrow> Inl (KeyError label_name)
                     | Some label \<Rightarrow>
                         (case transform self of
                            None \<Rightarrow> Inr (image, label)
                          | Some t \<Rightarrow>
                              (case tv_call t image of
                                 Inl e \<Rightarrow> Inl e
                               | Inr image' \<Rightarrow> Inr (image', label)))))))"

text \<open>
  How the framework's loader builds one batch from a list of positions,
  \<open>[dataset[idx] for idx in batch]\<close>: an exception of any access ends the batch.
\<close>

fun fetch ::
  "(string \<rightharpoonup> pixel_array) \<Rightarrow> DicomDataset \<Rightarrow> int list \<Rightarrow> error + (image \<times> nat) list" where
  "fetch files self [] = Inr []"
| "fetch files self (idx # idxs) =
     (case DicomDataset_getitem files self idx of
        Inl e \<Rightarrow> Inl e
      | Inr sample \<Rightarrow>
          (case fetch files self idxs of Inl e \<Rightarrow> Inl e | Inr rest \<Rightarrow> Inr (sample # rest)))"

section \<open>The 3D notebook: \<open>train_transforms\<close> and \<open>val_transforms\<close>\<close>

text \<open>
  A volume is a numpy array or a torch tensor, given by its shape. The five MONAI
  transforms, with the shape behaviour of their documentation:
  \<^item> \<open>ScaleIntensity()\<close> rescales the values to \<open>[0, 1]\<close> and keeps the shape; it takes
    the minimum and the maximum of the values, which raises ValueError on a volume with
    an empty axis;
  \<^item> \<open>AddChannel()\<close> puts a new first dimension of length 1 (\<open>img[None]\<close>);
  \<^item> \<open>Resize(spatial_size)\<close> reads the first dimension as the channel, pads the shape
    with ones when it has fewer spatial dimensions than \<open>spatial_size\<close>, raises
    ValueError when it has more, and resizes the spatial dimensions to
    \<open>spatial_size\<close> (a component 0 keeps the extent of the input); the interpolation
    exists for one, two and three spatial dimensions and raises on an empty axis;
  \<^item> \<open>RandRotate90()\<close> turns the first two spatial dimensions by \<open>k\<close> quarter turns,
    where \<open>k\<close> is what the transform draws for this call (0 when it draws no rotation);
  \<^item> \<open>EnsureType()\<close> converts to a torch tensor.
\<close>

datatype volume = Ndarray "nat list" | TorchTensor "nat list"

fun shape_of :: "volume \<Rightarrow> nat list" where
  "shape_of (Ndarray shape) = shape"
| "shape_of (TorchTensor shape) = shape"

fun with_shape :: "volume \<Rightarrow> nat list \<Rightarrow> volume" where
  "with_shape (Ndarray old) shape = Ndarray shape"
| "with_shape (TorchTensor old) shape = TorchTensor shape"

datatype monai_transform =
    ScaleIntensity
  | AddChannel
  | Resize "nat list"
  | RandRotate90
  | EnsureType

fun monai_apply :: "nat \<Rightarrow> monai_transform \<Rightarrow> volume \<Rightarrow> error + volume" where
  "monai_apply k ScaleIntensity img =
     (if 0 \<in> set (shape_of img) then Inl ValueError else Inr img)"
| "monai_apply k AddChannel img = Inr (with_shape img (1 # shape_of img))"
| "monai_apply k (Resize spatial_size) img =
     (let shape = shape_of img;
          padded = shape @ replicate (length spatial_size + 1 - length shape) 1
      in if length spatial_size + 1 < length shape then Inl ValueError
         else if length spatial_size = 0 \<or> 3 < length spatial_size then Inl NotImplementedError
         else if 0 \<in> set shape then Inl RuntimeError
         else Inr (with_shape img
                (hd padded # map2 (\<lambda>wanted given. if wanted = 0 then given else wanted)
                                spatial_size (tl padded))))"
| "monai_apply k RandRotate90 img =
     (if k = 0 then Inr img
      else case shape_of img of
             c # h # w # rest \<Rightarrow>
               Inr (with_shape img (if odd k then c # w # h # rest else c # h # w # rest))
           | _ \<Rightarrow> Inl ValueError)"
| "monai_apply k EnsureType img = Inr (TorchTensor (shape_of img))"

datatype monai_pipeline = Compose "monai_transform list"

fun monai_steps :: "monai_pipeline \<Rightarrow> monai_transform list" where
  "monai_steps (Compose ts) = ts"

fun monai_run :: "nat \<Rightarrow> monai_transform list \<Rightarrow> volume \<Rightarrow> error + volume" where
  "monai_run k [] img = Inr img"
| "monai_run k (t # ts) img =
     (case monai_apply k t img of Inl e \<Rightarrow> Inl e | Inr img' \<Rightarrow> monai_run k ts img')"

definition monai_call :: "nat \<Rightarrow> monai_pipeline \<Rightarrow> volume \<Rightarrow> error + volume" where
  "monai_call k p img = monai_run k (monai_steps p) img"

definition train_transforms :: monai_pipeline where
  "train_transforms =
     Compose [ScaleIntensity, AddChannel, Resize [96, 96, 96], RandRotate90, EnsureType]"

definition val_transforms :: monai_pipeline where
  "val_transforms = Compose [ScaleIntensity, AddChannel, Resize [96, 96, 96], EnsureType]"

text \<open>
  The labels of the 3D notebook, and the slices \<open>labels[:10]\<close> and \<open>labels[-10:]\<close> the
  two datasets receive.
\<close>

definition labels :: "nat list" where
  "labels = [0, 0, 0, 1, 0, 0, 0, 1, 1, 0, 0, 0, 1, 0, 1, 0, 1, 0, 1, 0]"

definition train_labels :: "nat list" where
  "train_labels = take 10 labels"

definition val_labels :: "nat list" where
  "val_labels = drop (length labels - 10) labels"

text \<open>
  The steps named by the specification, and the steps each transform performs.
  \<open>transforms.ToTensor()\<close> performs three at once: it converts to a tensor, puts the
  channel dimension first and scales to \<open>[0, 1]\<close>.
\<close>

datatype step_kind =
    IntensityScaling
  | ChannelInsertion
  | SpatialResize
  | RandomRotation
  | TensorConversion

fun monai_kind :: "monai_transform \<Rightarrow> step_kind" where
  "monai_kind ScaleIntensity = IntensityScaling"
| "monai_kind AddChannel = ChannelInsertion"
| "monai_kind (Resize spatial_size) = SpatialResize"
| "monai_kind RandRotate90 = RandomRotation"
| "monai_kind EnsureType = TensorConversion"

fun tv_kinds :: "tv_transform \<Rightarrow> step_kind list" where
  "tv_kinds (transforms_Resize sz) = [SpatialResize]"
| "tv_kinds transforms_ToTensor = [TensorConversion, ChannelInsertion, IntensityScaling]"
| "tv_kinds (transforms_Normalize mean std) = [IntensityScaling]"

text \<open>Sequencing of two steps that may raise: the second runs on the result of the first.\<close>

definition and_then :: "error + 'a \<Rightarrow> ('a \<Rightarrow> error + 'b) \<Rightarrow> error + 'b" where
  "and_then r f = (case r of Inl e \<Rightarrow> Inl e | Inr x \<Rightarrow> f x)"

text \<open>The order the specification gives, with and without the training-only rotation.\<close>

definition spec_order :: "bool \<Rightarrow> step_kind list" where
  "spec_order train =
     [IntensityScaling, ChannelInsertion, SpatialResize]
     @ (if train then [RandomRotation] else []) @ [TensorConversion]"


section \<open>Concrete runs\<close>

text \<open>
  A small instance of the framework for concrete runs. A batch is a pair (number of
  samples, loss); the parameters are a counter the optimizer advances by the gradient,
  which \<open>backward\<close> makes 1; the network returns its parameters, and the number of
  correct predictions is the batch size times a tenth of \<open>3, 4, 5, 6, 7, 7, 6\<close> for the
  parameter values \<open>0, ..., 6\<close>, rounded down.
\<close>

definition demo_torch :: "(nat, nat, nat, nat \<times> real, nat) torch" where
  "demo_torch =
     \<lparr>model_fwd = (\<lambda>tr ge m b. m),
      criterion = (\<lambda>y b. snd b),
      corrects = (\<lambda>y b. fst b * (if y < 4 then y + 3 else if y < 6 then 7 else 6) div 10),
      size0 = fst,
      zero_grad = (\<lambda>g. 0),
      backward = (\<lambda>m b g. g + 1),
      opt_step = (\<lambda>opt m g. (opt + 1, m + g))\<rparr>"

text \<open>
  Ten training samples in batches of 4 and 6, ten validation samples in one batch, the
  same in every epoch. With \<open>demo_torch\<close> the validation accuracies of the first three
  epochs are 0.5, 0.7 and 0.6.
\<close>

definition demo_loaders :: "phase \<Rightarrow> nat \<Rightarrow> (nat \<times> real) list" where
  "demo_loaders ph epoch = (if ph = Train then [(4, 1), (6, 1 / 2)] else [(10, 1 / 4)])"

definition demo_sizes :: "phase \<Rightarrow> nat" where
  "demo_sizes ph = 10"

definition demo_start :: "(nat, nat, nat) run3d" where
  "demo_start =
     \<lparr>params = 0, opt_state = 0, grads = 0, training = False, stdout = [],
      best_metric = 0, iter_num = (\<lambda>ph. 0), paths = {}, saved = []\<rparr>"

text \<open>The state of the demo run when \<open>k\<close> epochs of three are over.\<close>

definition demo_after :: "nat \<Rightarrow> (nat, nat, nat) run3d" where
  "demo_after k =
     projr (epochs_loop demo_torch demo_loaders demo_sizes 3 [0..<k] (init_3d demo_start))"

text \<open>
  Two loaders for the 2D loop: one batch of two samples with loss 1, and the two
  training batches above, which hold ten samples.
\<close>

definition demo_loader_one :: "nat \<Rightarrow> (nat \<times> real) list" where
  "demo_loader_one epoch = [(2, 1)]"

definition demo_loader_two :: "nat \<Rightarrow> (nat \<times> real) list" where
  "demo_loader_two epoch = [(4, 1), (6, 1 / 2)]"

definition demo_start_2d :: "(nat, nat, nat) run2d" where
  "demo_start_2d =
     \<lparr>params = 0, opt_state = 0, grads = 0, training = False, stdout = [],
      loss_over_time = []\<rparr>"

text \<open>
  A label table of five rows and a disk on which the first image is square, the second
  is not, the third is square, the fourth is missing and the fifth is square with
  16-bit pixels, the others having 8-bit pixels. The third and fourth rows carry a class
  name the mapping does not know.
\<close>

definition demo_rows :: "(string \<times> string) list" where
  "demo_rows =
     [(''train/a.dcm'', ''Pneumothorax''),
      (''train/b.dcm'', ''No Pneumothorax''),
      (''train/c.dcm'', ''Effusion''),
      (''train/d.dcm'', ''Effusion''),
      (''train/e.dcm'', ''Pneumothorax'')]"

definition demo_files :: "string \<rightharpoonup> pixel_array" where
  "demo_files =
     [''data/siim_small/train/a.dcm'' \<mapsto> \<lparr>px_rows = 1024, px_cols = 1024, px_dtype = UInt8\<rparr>,
      ''data/siim_small/train/b.dcm'' \<mapsto> \<lparr>px_rows = 200, px_cols = 300, px_dtype = UInt8\<rparr>,
      ''data/siim_small/train/c.dcm'' \<mapsto> \<lparr>px_rows = 1024, px_cols = 1024, px_dtype = UInt8\<rparr>,
      ''data/siim_small/train/e.dcm'' \<mapsto> \<lparr>px_rows = 1024, px_cols = 1024, px_dtype = UInt16\<rparr>]"

definition train_dataset :: DicomDataset where
  "train_dataset =
     DicomDataset_init demo_rows ''data/siim_small'' (class_to_idx classes) (Some data_transform)"

section \<open>Lemmas on the 3D loop\<close>

lemma batch_step_3d_frame:
  "best_metric (fst (batch_step_3d T ph b acc)) = best_metric (fst acc)"
  "saved (fst (batch_step_3d T ph b acc)) = saved (fst acc)"
  "paths (fst (batch_step_3d T ph b acc)) = paths (fst acc)"
  "stdout (fst (batch_step_3d T ph b acc)) = stdout (fst acc)"
  "training (fst (batch_step_3d T ph b acc)) = training (fst acc)"
  by (cases acc; simp add: batch_step_3d_def Let_def)+

lemma run_batches_3d_frame:
  "best_metric (fst (run_batches_3d T ph bs acc)) = best_metric (fst acc)"
  "saved (fst (run_batches_3d T ph bs acc)) = saved (fst acc)"
  "paths (fst (run_batches_3d T ph bs acc)) = paths (fst acc)"
  "stdout (fst (run_batches_3d T ph bs acc)) = stdout (fst acc)"
  "training (fst (run_batches_3d T ph bs acc)) = training (fst acc)"
  by (induction bs arbitrary: acc; simp add: batch_step_3d_frame)+

lemma batch_step_3d_val:
  "params (fst (batch_step_3d T Val b acc)) = params (fst acc)"
  "opt_state (fst (batch_step_3d T Val b acc)) = opt_state (fst acc)"
  "grads (fst (batch_step_3d T Val b acc)) = zero_grad T (grads (fst acc))"
  by (cases acc; simp add: batch_step_3d_def Let_def)+

lemma run_batches_3d_val:
  "params (fst (run_batches_3d T Val bs acc)) = params (fst acc)"
  "opt_state (fst (run_batches_3d T Val bs acc)) = opt_state (fst acc)"
  "grads (fst (run_batches_3d T Val bs acc)) = (zero_grad T ^^ length bs) (grads (fst acc))"
  by (induction bs arbitrary: acc; simp add: batch_step_3d_val funpow_swap1)+

lemma batch_step_3d_val_no_update:
  "batch_step_3d (T\<lparr>backward := bw, opt_step := st\<rparr>) Val b acc = batch_step_3d T Val b acc"
  by (simp add: batch_step_3d_def)

lemma run_batches_3d_val_no_update:
  "run_batches_3d (T\<lparr>backward := bw, opt_step := st\<rparr>) Val bs acc = run_batches_3d T Val bs acc"
  by (induction bs arbitrary: acc) (simp_all add: batch_step_3d_val_no_update)

lemma batch_step_3d_grad_mode:
  assumes "\<And>tr m b. f tr (ph = Train) m b = model_fwd T tr (ph = Train) m b"
  shows "batch_step_3d (T\<lparr>model_fwd := f\<rparr>) ph b acc = batch_step_3d T ph b acc"
  by (cases acc) (simp add: batch_step_3d_def Let_def assms)

lemma run_batches_3d_grad_mode:
  assumes "\<And>tr m b. f tr (ph = Train) m b = model_fwd T tr (ph = Train) m b"
  shows "run_batches_3d (T\<lparr>model_fwd := f\<rparr>) ph bs acc = run_batches_3d T ph bs acc"
proof (induction bs arbitrary: acc)
  case Nil
  show ?case by simp
next
  case (Cons b bs)
  have "batch_step_3d (T\<lparr>model_fwd := f\<rparr>) ph b acc = batch_step_3d T ph b acc"
    by (rule batch_step_3d_grad_mode) (rule assms)
  then show ?case using Cons.IH by simp
qed

lemma phase_stats_frame:
  assumes "phase_stats T L D e ph s = Inr (s', l, a)"
  shows "best_metric s' = best_metric s" "saved s' = saved s" "paths s' = paths s"
    "stdout s' = stdout s @ [PhaseStats ph l a]" "0 \<le> a" "training s' = (ph = Train)"
  using assms
  by (auto simp: phase_stats_def Let_def run_batches_3d_frame split: if_splits)

lemma phase_stats_val:
  assumes "phase_stats T L D e Val s = Inr (s', l, a)"
  shows "params s' = params s" "opt_state s' = opt_state s"
    "grads s' = (zero_grad T ^^ length (L Val e)) (grads s)"
  using assms
  by (auto simp: phase_stats_def Let_def run_batches_3d_val split: if_splits)

lemma phase_stats_total:
  "D ph \<noteq> 0 \<Longrightarrow> L ph e \<noteq> [] \<Longrightarrow> \<exists>s' l a. phase_stats T L D e ph s = Inr (s', l, a)"
  by (simp add: phase_stats_def Let_def)

lemma checkpoint_best: "best_metric (checkpoint s a) = max (best_metric s) a"
  by (simp add: checkpoint_def Let_def max_def)

lemma checkpoint_machine:
  "params (checkpoint s a) = params s" "opt_state (checkpoint s a) = opt_state s"
  "grads (checkpoint s a) = grads s" "training (checkpoint s a) = training s"
  by (simp_all add: checkpoint_def Let_def)

lemma checkpoint_saved:
  "saved (checkpoint s a) =
     saved s @ (if a > best_metric s
                then [(''models/3d_classification_model.pth'', BoundMethod (params s) ''state_dict'')]
                else [])"
  by (simp add: checkpoint_def Let_def)

lemma checkpoint_stdout:
  "stdout (checkpoint s a) = stdout s @ (if a > best_metric s then [SavedBest] else [])"
  by (simp add: checkpoint_def Let_def)

lemma run_phase_Inr:
  "run_phase T L D e ph s = Inr s' \<longleftrightarrow>
     (\<exists>s1 l a. phase_stats T L D e ph s = Inr (s1, l, a) \<and>
        s' = (if ph = Val then checkpoint s1 a else s1))"
  by (auto simp: run_phase_def split: sum.splits)

lemma epoch_body_Inr:
  "epoch_body T L D n e s = Inr s' \<longleftrightarrow>
     (\<exists>s1 l1 a1 s2 l2 a2.
        phase_stats T L D e Train (s\<lparr>stdout := stdout s @ [EpochBanner e (n - 1), Dashes]\<rparr>)
          = Inr (s1, l1, a1) \<and>
        phase_stats T L D e Val s1 = Inr (s2, l2, a2) \<and> s' = checkpoint s2 a2)"
  by (auto simp: epoch_body_def run_phase_def split: sum.splits prod.splits)

lemma epoch_body_effect:
  assumes "epoch_body T L D n e s = Inr s'"
  shows "\<exists>l1 a1 l2 a2. 0 \<le> a2 \<and>
     best_metric s' = max (best_metric s) a2 \<and>
     stdout s' = stdout s @ [EpochBanner e (n - 1), Dashes, PhaseStats Train l1 a1,
        PhaseStats Val l2 a2] @ (if a2 > best_metric s then [SavedBest] else []) \<and>
     saved s' = saved s @ (if a2 > best_metric s
        then [(''models/3d_classification_model.pth'', BoundMethod (params s') ''state_dict'')]
        else [])"
proof -
  from assms obtain s1 l1 a1 s2 l2 a2 where
    t: "phase_stats T L D e Train (s\<lparr>stdout := stdout s @ [EpochBanner e (n - 1), Dashes]\<rparr>)
          = Inr (s1, l1, a1)"
    and v: "phase_stats T L D e Val s1 = Inr (s2, l2, a2)" and s': "s' = checkpoint s2 a2"
    unfolding epoch_body_Inr by blast
  note ft = phase_stats_frame[OF t] and fv = phase_stats_frame[OF v]
  have "best_metric s2 = best_metric s" using ft fv by simp
  moreover have "stdout s2 = stdout s @ [EpochBanner e (n - 1), Dashes, PhaseStats Train l1 a1,
        PhaseStats Val l2 a2]" using ft fv by simp
  moreover have "saved s2 = saved s" using ft fv by simp
  ultimately show ?thesis using fv(5) s'
    by (intro exI[of _ l1] exI[of _ a1] exI[of _ l2] exI[of _ a2])
       (simp add: checkpoint_best checkpoint_saved checkpoint_stdout checkpoint_machine)
qed

lemma epoch_body_total:
  assumes "D Train \<noteq> 0" "D Val \<noteq> 0" "L Train e \<noteq> []" "L Val e \<noteq> []"
  shows "\<exists>s'. epoch_body T L D n e s = Inr s'"
proof -
  obtain s1 l1 a1 where
    "phase_stats T L D e Train (s\<lparr>stdout := stdout s @ [EpochBanner e (n - 1), Dashes]\<rparr>)
       = Inr (s1, l1, a1)"
    using phase_stats_total[of D Train L e] assms(1,3) by blast
  moreover obtain s2 l2 a2 where "phase_stats T L D e Val s1 = Inr (s2, l2, a2)"
    using phase_stats_total[of D Val L e] assms(2,4) by blast
  ultimately show ?thesis unfolding epoch_body_Inr by blast
qed

lemma epochs_loop_append:
  "epochs_loop T L D n (xs @ ys) s =
     (case epochs_loop T L D n xs s of Inl e \<Rightarrow> Inl e | Inr s' \<Rightarrow> epochs_loop T L D n ys s')"
  by (induction xs arbitrary: s) (auto split: sum.splits)

lemma epochs_loop_Suc:
  "epochs_loop T L D n [0..<Suc k] s = Inr s' \<longleftrightarrow>
     (\<exists>sk. epochs_loop T L D n [0..<k] s = Inr sk \<and> epoch_body T L D n k sk = Inr s')"
  by (auto simp: epochs_loop_append split: sum.splits)

lemma epochs_loop_grows:
  "epochs_loop T L D n es s = Inr s' \<Longrightarrow>
     best_metric s \<le> best_metric s' \<and> (\<exists>rest. saved s' = saved s @ rest)"
proof (induction es arbitrary: s)
  case Nil
  then show ?case by simp
next
  case (Cons e es)
  from Cons.prems obtain s1 where b: "epoch_body T L D n e s = Inr s1"
    and r: "epochs_loop T L D n es s1 = Inr s'"
    by (auto split: sum.splits)
  from epoch_body_effect[OF b] have "best_metric s \<le> best_metric s1"
    and "\<exists>rest. saved s1 = saved s @ rest"
    by auto
  with Cons.IH[OF r] show ?case by auto
qed

lemma improvement_iff:
  assumes "\<forall>p\<in>set accs. p \<le> b" "b = - 1 \<or> b \<in> set accs" "(0::real) \<le> a"
  shows "b < a \<longleftrightarrow> (\<forall>p\<in>set accs. p < a)"
  using assms by force

lemma strict_improvement_snoc:
  assumes "length accs = k"
  shows "strict_improvement (accs @ [a]) k \<longleftrightarrow> (\<forall>p\<in>set accs. p < a)"
  using assms by (auto simp: strict_improvement_def nth_append all_set_conv_all_nth)

lemma filter_improvement_snoc:
  assumes "length accs = k"
  shows "filter (strict_improvement (accs @ [a])) [0..<Suc k] =
         filter (strict_improvement accs) [0..<k] @ (if \<forall>p\<in>set accs. p < a then [k] else [])"
proof -
  have "filter (strict_improvement (accs @ [a])) [0..<k] = filter (strict_improvement accs) [0..<k]"
    using assms by (intro filter_cong) (auto simp: strict_improvement_def nth_append)
  then show ?thesis using strict_improvement_snoc[OF assms] by simp
qed

lemma val_accs_append: "val_accs (xs @ ys) = val_accs xs @ val_accs ys"
  by (simp add: val_accs_def)

lemma val_accs_simps:
  "val_accs [] = []"
  "val_accs (PhaseStats Val l a # ls) = a # val_accs ls"
  "val_accs (PhaseStats Train l a # ls) = val_accs ls"
  "val_accs (EpochBanner e n # ls) = val_accs ls"
  "val_accs (Dashes # ls) = val_accs ls"
  "val_accs (SavedBest # ls) = val_accs ls"
  "val_accs (Complete x # ls) = val_accs ls"
  "val_accs (EpochStats l a # ls) = val_accs ls"
  by (simp_all add: val_accs_def)

lemma epochs_invariant:
  assumes "val_accs (stdout s) = []"
  shows "epochs_loop T L D n [0..<k] (init_3d s) = Inr sk \<Longrightarrow>
     length (val_accs (stdout sk)) = k \<and>
     (\<forall>p\<in>set (val_accs (stdout sk)). p \<le> best_metric sk) \<and>
     (best_metric sk = - 1 \<or> best_metric sk \<in> set (val_accs (stdout sk))) \<and>
     length (saved sk) = length (saved s) +
        length (filter (strict_improvement (val_accs (stdout sk))) [0..<k])"
proof (induction k arbitrary: sk)
  case 0
  then have "sk = init_3d s" by simp
  then show ?case using assms by (simp add: init_3d_def)
next
  case (Suc k)
  from Suc.prems obtain s0 where s0: "epochs_loop T L D n [0..<k] (init_3d s) = Inr s0"
    and body: "epoch_body T L D n k s0 = Inr sk"
    unfolding epochs_loop_Suc by blast
  note IH = Suc.IH[OF s0]
  from epoch_body_effect[OF body] obtain l1 a1 l2 a2 where
    a2: "0 \<le> a2" and bm: "best_metric sk = max (best_metric s0) a2"
    and out: "stdout sk = stdout s0 @ [EpochBanner k (n - 1), Dashes, PhaseStats Train l1 a1,
        PhaseStats Val l2 a2] @ (if a2 > best_metric s0 then [SavedBest] else [])"
    and sv: "saved sk = saved s0 @ (if a2 > best_metric s0
        then [(''models/3d_classification_model.pth'', BoundMethod (params sk) ''state_dict'')]
        else [])"
    by blast
  have va: "val_accs (stdout sk) = val_accs (stdout s0) @ [a2]"
    using out by (simp add: val_accs_append val_accs_simps)
  have iff: "best_metric s0 < a2 \<longleftrightarrow> (\<forall>p\<in>set (val_accs (stdout s0)). p < a2)"
    using IH a2 by (intro improvement_iff) auto
  have len: "length (val_accs (stdout s0)) = k" using IH by simp
  show ?case
    unfolding va filter_improvement_snoc[OF len]
    using IH bm sv iff by (auto simp: max_def)
qed

lemma epoch_step_improvement:
  assumes "val_accs (stdout s) = []"
      and "epochs_loop T L D n [0..<k] (init_3d s) = Inr sk"
      and "epoch_body T L D n k sk = Inr sk'"
  shows "\<exists>a. val_accs (stdout sk') = val_accs (stdout sk) @ [a] \<and>
           saved sk' = saved sk @
             (if strict_improvement (val_accs (stdout sk')) k
              then [(''models/3d_classification_model.pth'', BoundMethod (params sk') ''state_dict'')]
              else [])"
proof -
  note inv = epochs_invariant[OF assms(1,2)]
  from epoch_body_effect[OF assms(3)] obtain l1 a1 l2 a2 where
    a2: "0 \<le> a2"
    and out: "stdout sk' = stdout sk @ [EpochBanner k (n - 1), Dashes, PhaseStats Train l1 a1,
        PhaseStats Val l2 a2] @ (if a2 > best_metric sk then [SavedBest] else [])"
    and sv: "saved sk' = saved sk @ (if a2 > best_metric sk
        then [(''models/3d_classification_model.pth'', BoundMethod (params sk') ''state_dict'')]
        else [])"
    by blast
  have va: "val_accs (stdout sk') = val_accs (stdout sk) @ [a2]"
    using out by (simp add: val_accs_append val_accs_simps)
  have iff: "best_metric sk < a2 \<longleftrightarrow> (\<forall>p\<in>set (val_accs (stdout sk)). p < a2)"
    using inv a2 by (intro improvement_iff) auto
  have len: "length (val_accs (stdout sk)) = k" using inv by simp
  show ?thesis
    using va sv iff strict_improvement_snoc[OF len, of a2] by auto
qed

section \<open>Lemmas on the accumulated loss\<close>

lemma run_batches_3d_loss:
  "fst (snd (run_batches_3d T ph bs acc)) =
     fst (snd acc) + (\<Sum>p\<leftarrow>batch_log_3d T ph bs acc. fst p * real (snd p))"
proof (induction bs arbitrary: acc)
  case Nil
  show ?case by simp
next
  case (Cons b bs)
  obtain s rl rc where acc: "acc = (s, rl, rc)" by (cases acc)
  have "fst (snd (batch_step_3d T ph b acc)) =
          fst (snd acc) + criterion T (model_fwd T (training s) (ph = Train) (params s) b) b
            * real (size0 T b)"
    by (simp add: acc batch_step_3d_def Let_def)
  then show ?case using Cons.IH[of "batch_step_3d T ph b acc"] by (simp add: acc)
qed

lemma phase_stats_loss:
  assumes "phase_stats T L D e ph s = Inr (s', l, a)"
  shows "l = weighted_mean_loss (batch_log_3d T ph (L ph e) (s\<lparr>training := (ph = Train)\<rparr>, 0, 0)) (D ph)"
    and "last (stdout s') = PhaseStats ph l a"
  using assms
  by (auto simp: phase_stats_def Let_def weighted_mean_loss_def run_batches_3d_loss
           split: if_splits)

lemma run_batches_2d_loss:
  "fst (snd (run_batches_2d T bs acc)) =
     fst (snd acc) + (\<Sum>p\<leftarrow>batch_log_2d T bs acc. fst p + fst p * real (snd p))"
proof (induction bs arbitrary: acc)
  case Nil
  show ?case by simp
next
  case (Cons b bs)
  obtain s rl rc where acc: "acc = (s, rl, rc)" by (cases acc)
  have "fst (snd (batch_step_2d T b acc)) =
          fst (snd acc) + (criterion T (model_fwd T (training s) True (params s) b) b
            + criterion T (model_fwd T (training s) True (params s) b) b * real (size0 T b))"
    by (simp add: acc batch_step_2d_def Let_def)
  then show ?case using Cons.IH[of "batch_step_2d T b acc"] by (simp add: acc)
qed

lemma epoch_stats_2d_loss:
  assumes "epoch_stats_2d T loader N e s = Inr (s', l, a)"
  shows "l = weighted_mean_loss (batch_log_2d T (loader e) (s, 0, 0)) N
             + (\<Sum>p\<leftarrow>batch_log_2d T (loader e) (s, 0, 0). fst p) / real N"
    and "loss_over_time s' = loss_over_time s @ [l]"
proof -
  have "(\<Sum>p\<leftarrow>xs. fst p + fst p * real (snd p)) =
        (\<Sum>p\<leftarrow>xs. fst p * real (snd p)) + (\<Sum>p\<leftarrow>xs. fst p)" for xs :: "(real \<times> nat) list"
    by (induction xs) auto
  then show "l = weighted_mean_loss (batch_log_2d T (loader e) (s, 0, 0)) N
             + (\<Sum>p\<leftarrow>batch_log_2d T (loader e) (s, 0, 0). fst p) / real N"
    using assms
    by (auto simp: epoch_stats_2d_def Let_def weighted_mean_loss_def run_batches_2d_loss
          add_divide_distrib split: if_splits)
  have "loss_over_time (fst (run_batches_2d T bs acc)) = loss_over_time (fst acc)" for bs acc
    by (induction bs arbitrary: acc; cases acc) (auto simp: batch_step_2d_def Let_def split: prod.splits)
  then show "loss_over_time s' = loss_over_time s @ [l]"
    using assms by (auto simp: epoch_stats_2d_def Let_def split: if_splits)
qed

section \<open>Lemmas on the class mapping and the dataset\<close>

lemma dict_of_map_of: "dict_of kvs = map_of (rev kvs)"
proof -
  have "fold (\<lambda>kv m. m(fst kv \<mapsto> snd kv)) kvs m0 = m0 ++ map_of (rev kvs)" for m0 :: "'a \<rightharpoonup> 'b"
    by (induction kvs arbitrary: m0) (auto simp: map_add_upd_left)
  then show ?thesis by (simp add: dict_of_def)
qed

lemma class_to_idx_Some:
  assumes "class_to_idx cs name = Some k"
  shows "k < length cs \<and> cs ! k = name"
proof -
  from assms have "(name, k) \<in> set (map (\<lambda>kv. (snd kv, fst kv)) (enumerate 0 cs))"
    by (auto simp: class_to_idx_def dict_of_map_of dest: map_of_SomeD)
  then have "(k, name) \<in> set (enumerate 0 cs)" by auto
  then show ?thesis by (simp add: in_set_enumerate_eq)
qed

lemma class_to_idx_dom: "dom (class_to_idx cs) = set cs"
proof -
  have "map fst (map (\<lambda>kv. (snd kv, fst kv)) (enumerate 0 cs)) = cs"
    by (simp add: comp_def)
  then have "fst ` set (map (\<lambda>kv. (snd kv, fst kv)) (enumerate 0 cs)) = set cs"
    by (metis set_map)
  then show ?thesis
    by (simp add: class_to_idx_def dict_of_map_of dom_map_of_conv_image_fst)
qed

lemma iloc_valid:
  assumes "j = (if idx < 0 then int (length df) + idx else idx)" "0 \<le> j" "j < int (length df)"
  shows "iloc df idx 0 = Inr (fst (df ! nat j))" "iloc df idx 1 = Inr (snd (df ! nat j))"
    "iloc df idx (Suc 0) = Inr (snd (df ! nat j))"
  using assms by (simp_all add: iloc_def Let_def)

lemma resize_edges_short:
  assumes "0 < w" "0 < h"
  shows "\<exists>w' h'. resize_edges sz w h = Inr (w', h') \<and> min w' h' = sz
           \<and> (w = h \<longrightarrow> w' = sz \<and> h' = sz)"
proof (cases "w \<le> h")
  case True
  then have "sz \<le> sz * h div w" using assms
    by (metis div_mult_self_is_m mult_le_mono2 div_le_mono)
  with True assms show ?thesis
    by (auto simp: resize_edges_def Let_def min_def)
next
  case False
  then have "w > h" by simp
  then have "sz \<le> sz * w div h" using assms
    by (metis div_mult_self_is_m mult_le_mono2 div_le_mono less_imp_le)
  with False assms show ?thesis
    by (auto simp: resize_edges_def Let_def min_def)
qed

lemma data_transform_shape:
  assumes "0 < w" "0 < h"
  shows "\<exists>w' h'. tv_call data_transform (PIL Mode_L w h) = Inr (Tensor Float32 [1, h', w'])
           \<and> min w' h' = 224
           \<and> (w = h \<longrightarrow> w' = 224 \<and> h' = 224)"
proof -
  from resize_edges_short[OF assms, of 224] obtain w' h' where
    "resize_edges 224 w h = Inr (w', h')" "min w' h' = 224" "w = h \<longrightarrow> w' = 224 \<and> h' = 224"
    by blast
  then show ?thesis
    by (intro exI[of _ w'] exI[of _ h']) (simp add: tv_call_def data_transform_def)
qed

lemma getitem_valid:
  assumes "j = (if idx < 0 then int (length (labels_df self)) + idx else idx)"
    "0 \<le> j" "j < int (length (labels_df self))"
  shows "DicomDataset_getitem files self idx =
     (case files (os_path_join (data_dir self) (fst (labels_df self ! nat j))) of
        None \<Rightarrow> Inl (FileNotFoundError (os_path_join (data_dir self) (fst (labels_df self ! nat j))))
      | Some px \<Rightarrow>
          (case classmapper self (snd (labels_df self ! nat j)) of
             None \<Rightarrow> Inl (KeyError (snd (labels_df self ! nat j)))
           | Some label \<Rightarrow>
               (case transform self of
                  None \<Rightarrow> Inr (Image_fromarray px, label)
                | Some t \<Rightarrow> (case tv_call t (Image_fromarray px) of
                     Inl e \<Rightarrow> Inl e | Inr image' \<Rightarrow> Inr (image', label)))))"
  by (simp add: DicomDataset_getitem_def iloc_valid[OF assms] dcmread_def Let_def
           split: option.splits)

lemma fetch_fails:
  "idx \<in> set idxs \<Longrightarrow> DicomDataset_getitem files self idx = Inl e \<Longrightarrow>
     \<exists>e'. fetch files self idxs = Inl e'"
  by (induction idxs) (auto split: sum.splits)

lemma fetch_length:
  "fetch files self idxs = Inr batch \<Longrightarrow> length batch = length idxs"
  by (induction idxs arbitrary: batch) (auto split: sum.splits)

section \<open>Evaluation of the concrete runs\<close>

lemma upt_small: "[0..<1] = [0]" "[0..<2] = [0, 1]" "[0..<3] = [0, 1, 2]"
  by (simp_all add: upt_rec)

lemmas demo_3d_defs = demo_torch_def demo_loaders_def demo_sizes_def demo_start_def
  train_model_3d_def init_3d_def epoch_body_def run_phase_def phase_stats_def checkpoint_def
  batch_step_3d_def Let_def upt_small

lemma demo_after_simps:
  "epochs_loop demo_torch demo_loaders demo_sizes 3 [0..<2] (init_3d demo_start) = Inr (demo_after 2)"
  "epoch_body demo_torch demo_loaders demo_sizes 3 2 (demo_after 2) = Inr (demo_after 3)"
  "val_accs (stdout (demo_after 2)) = [1 / 2, 7 / 10]"
  "val_accs (stdout (demo_after 3)) = [1 / 2, 7 / 10, 3 / 5]"
  "length (saved (demo_after 2)) = 2"
  "length (saved (demo_after 3)) = 2"
  by (simp_all add: demo_after_def demo_3d_defs val_accs_def)

lemmas demo_2d_defs = demo_torch_def demo_loader_one_def demo_loader_two_def demo_start_2d_def
  train_model_2d_def epoch_stats_2d_def batch_step_2d_def weighted_mean_loss_def Let_def

lemmas demo_ds_defs = train_dataset_def DicomDataset_init_def DicomDataset_getitem_def
  DicomDataset_len_def iloc_def os_path_join_def dcmread_def Image_fromarray_def demo_rows_def
  demo_files_def class_to_idx_def classes_def dict_of_def enumerate_eq_zip tv_call_def
  data_transform_def resize_edges_def Let_def

lemma demo_getitem:
  "DicomDataset_getitem demo_files train_dataset 0 = Inr (Tensor Float32 [1, 224, 224], 1)"
  "DicomDataset_getitem demo_files train_dataset 1 = Inr (Tensor Float32 [1, 224, 336], 0)"
  "DicomDataset_getitem demo_files train_dataset 4 = Inl TypeError"
  "DicomDataset_getitem demo_files train_dataset 2 = Inl (KeyError ''Effusion'')"
  "DicomDataset_getitem demo_files train_dataset 3
     = Inl (FileNotFoundError ''data/siim_small/train/d.dcm'')"
  by (simp_all add: demo_ds_defs upt_rec)

lemma demo_dataset_fields:
  "DicomDataset_len train_dataset = 5"
  "labels_df train_dataset = demo_rows"
  "data_dir train_dataset = ''data/siim_small''"
  "classmapper train_dataset = class_to_idx classes"
  "transform train_dataset = Some data_transform"
  by (simp_all add: train_dataset_def DicomDataset_init_def DicomDataset_len_def demo_rows_def)

section \<open>The claims\<close>

text \<open>
  C1, at a failing input of the 2D loop. One epoch over a loader that yields a single
  batch of two samples with mean loss 1, with \<open>len(train_dataset) = 2\<close>: the epoch loss
  the loop appends to \<open>loss_over_time\<close> is \<open>(1 + 1 * 2) / 2 = 3/2\<close>, while the
  length-weighted mean of the logged per-batch losses is \<open>1 * 2 / 2 = 1\<close>. The 3D loop
  reports the length-weighted mean (lemma \<open>phase_stats_loss\<close>); the 2D loop reports
  it plus the plain sum of the batch losses over the dataset size (lemma
  \<open>epoch_stats_2d_loss\<close>).
\<close>

theorem train_model_2d_adds_loss_twice:
  "map_sum id loss_over_time (train_model_2d demo_torch demo_loader_one 2 1 demo_start_2d)
     = Inr [3 / 2]
   \<and> weighted_mean_loss
       (batch_log_2d demo_torch (demo_loader_one 0)
          (demo_start_2d\<lparr>loss_over_time := [], training := True\<rparr>, 0, 0)) 2 = 1"
  by (simp add: demo_2d_defs upt_small)

text \<open>
  C2, the scenario as the code runs it. In the demo run the validation accuracies of
  the three epochs are 0.5, 0.7 and 0.6; \<open>'Saved best new model'\<close> is printed after the
  validation of the first and of the second epoch, and \<open>torch.save\<close> has been called
  twice, not once.
\<close>

theorem three_epochs_two_checkpoints:
  "map_sum id stdout (train_model_3d demo_torch demo_loaders demo_sizes 3 demo_start) =
     Inr [EpochBanner 0 2, Dashes, PhaseStats Train (7 / 10) (3 / 10),
          PhaseStats Val (1 / 4) (1 / 2), SavedBest,
          EpochBanner 1 2, Dashes, PhaseStats Train (7 / 10) (1 / 2),
          PhaseStats Val (1 / 4) (7 / 10), SavedBest,
          EpochBanner 2 2, Dashes, PhaseStats Train (7 / 10) (3 / 5),
          PhaseStats Val (1 / 4) (3 / 5), Complete (7 / 10)]
   \<and> map_sum id saved (train_model_3d demo_torch demo_loaders demo_sizes 3 demo_start) =
     Inr [(''models/3d_classification_model.pth'', BoundMethod 2 ''state_dict''),
          (''models/3d_classification_model.pth'', BoundMethod 4 ''state_dict'')]
   \<and> map_sum id (length \<circ> saved)
         (train_model_3d demo_torch demo_loaders demo_sizes 3 demo_start) \<noteq> Inr 1"
  by (simp add: demo_3d_defs)

lemma filter_scenario:
  "filter (strict_improvement [1 / 2, 7 / 10, 3 / 5]) [0..<3] = [0, 1]"
  by (simp add: upt_small strict_improvement_def numeral_2_eq_2 less_Suc_eq)

text \<open>
  C2, amended. Take a run of the 3D loop that has printed no validation line before it
  starts, the state \<open>sk\<close> after its first \<open>k\<close> epochs and the state \<open>sk'\<close> after the next
  epoch (epoch number \<open>k\<close>, counted from 0). That epoch prints one more validation
  accuracy; \<open>torch.save\<close> is called in it exactly when this accuracy strictly exceeds
  the accuracy of every earlier epoch, which for the first epoch is always; the number of
  calls so far is the number of such epochs. In particular, when the accuracies are
  0.5, 0.7, 0.6, the saving epochs are the first and the second, and two calls have
  been made.
\<close>

theorem checkpoint_iff_strict_improvement:
  assumes "val_accs (stdout s) = []"
      and "epochs_loop T L D n [0..<k] (init_3d s) = Inr sk"
      and "epoch_body T L D n k sk = Inr sk'"
  shows "length (val_accs (stdout sk)) = k
     \<and> (\<exists>a. val_accs (stdout sk') = val_accs (stdout sk) @ [a])
     \<and> (saved sk' \<noteq> saved sk \<longleftrightarrow> strict_improvement (val_accs (stdout sk')) k)
     \<and> (\<exists>obj. saved sk' = saved sk @
           (if strict_improvement (val_accs (stdout sk')) k
            then [(''models/3d_classification_model.pth'', obj)] else []))
     \<and> length (saved sk') = length (saved s) +
           length (filter (strict_improvement (val_accs (stdout sk'))) [0..<Suc k])
     \<and> (val_accs (stdout sk') = [1 / 2, 7 / 10, 3 / 5] \<longrightarrow>
           filter (strict_improvement (val_accs (stdout sk'))) [0..<Suc k] = [0, 1]
           \<and> length (saved sk') = length (saved s) + 2)"
proof -
  have run: "epochs_loop T L D n [0..<Suc k] (init_3d s) = Inr sk'"
    using assms(2,3) unfolding epochs_loop_Suc by blast
  note inv = epochs_invariant[OF assms(1,2)] and inv' = epochs_invariant[OF assms(1) run]
  from epoch_step_improvement[OF assms] obtain a where
    va: "val_accs (stdout sk') = val_accs (stdout sk) @ [a]"
    and sv: "saved sk' = saved sk @
             (if strict_improvement (val_accs (stdout sk')) k
              then [(''models/3d_classification_model.pth'', BoundMethod (params sk') ''state_dict'')]
              else [])"
    by blast
  have c1: "length (val_accs (stdout sk)) = k" using inv by simp
  have c2: "\<exists>a. val_accs (stdout sk') = val_accs (stdout sk) @ [a]" using va by blast
  have c3: "saved sk' \<noteq> saved sk \<longleftrightarrow> strict_improvement (val_accs (stdout sk')) k"
    using sv by simp
  have c4: "\<exists>obj. saved sk' = saved sk @
           (if strict_improvement (val_accs (stdout sk')) k
            then [(''models/3d_classification_model.pth'', obj)] else [])"
    using sv by (cases "strict_improvement (val_accs (stdout sk')) k") auto
  have c5: "length (saved sk') = length (saved s) +
           length (filter (strict_improvement (val_accs (stdout sk'))) [0..<Suc k])"
    using inv' by simp
  have c6: "val_accs (stdout sk') = [1 / 2, 7 / 10, 3 / 5] \<longrightarrow>
           filter (strict_improvement (val_accs (stdout sk'))) [0..<Suc k] = [0, 1]
           \<and> length (saved sk') = length (saved s) + 2"
  proof
    assume eq: "val_accs (stdout sk') = [1 / 2, 7 / 10, 3 / 5]"
    have "length (val_accs (stdout sk')) = Suc k" using inv' by simp
    then have k: "Suc k = 3" using eq by simp
    have f: "filter (strict_improvement (val_accs (stdout sk'))) [0..<Suc k] = [0, 1]"
      unfolding eq k by (rule filter_scenario)
    then show "filter (strict_improvement (val_accs (stdout sk'))) [0..<Suc k] = [0, 1]
           \<and> length (saved sk') = length (saved s) + 2"
      using c5 by simp
  qed
  show ?thesis using c1 c2 c3 c4 c5 c6 by blast
qed

text \<open>
  The hypotheses of C2 hold in the demo run at \<open>k = 2\<close>: the third epoch's accuracy 0.6
  does not exceed 0.7, and nothing is saved in it.
\<close>

theorem checkpoint_iff_strict_improvement_witness:
  "val_accs (stdout demo_start) = []
   \<and> epochs_loop demo_torch demo_loaders demo_sizes 3 [0..<2] (init_3d demo_start)
       = Inr (demo_after 2)
   \<and> epoch_body demo_torch demo_loaders demo_sizes 3 2 (demo_after 2) = Inr (demo_after 3)
   \<and> val_accs (stdout (demo_after 3)) = [1 / 2, 7 / 10, 3 / 5]
   \<and> \<not> strict_improvement (val_accs (stdout (demo_after 3))) 2
   \<and> saved (demo_after 3) = saved (demo_after 2)
   \<and> length (saved (demo_after 3)) = length (saved demo_start) + 2"
proof -
  have h1: "val_accs (stdout demo_start) = []"
    by (simp add: demo_start_def val_accs_def)
  note h2 = demo_after_simps(1) and h3 = demo_after_simps(2)
  note th = checkpoint_iff_strict_improvement[OF h1 h2 h3]
  have "\<not> strict_improvement (val_accs (stdout (demo_after 3))) 2"
    by (simp add: demo_after_simps strict_improvement_def numeral_2_eq_2 less_Suc_eq)
  then show ?thesis using h1 h2 h3 th demo_after_simps(4) by auto
qed

text \<open>
  C3, at a failing input. After one epoch of the demo run the loop has decided to
  checkpoint (accuracy 0.5 against the initial \<minus>1) and has updated the best metric to
  0.5, but the object it has handed to \<open>torch.save\<close> for the fixed path is the bound
  method \<open>model.state_dict\<close>, not the mapping \<open>model.state_dict()\<close> of the parameters.
\<close>

theorem checkpoint_saves_bound_method:
  "map_sum id saved (train_model_3d demo_torch demo_loaders demo_sizes 1 demo_start) =
     Inr [(''models/3d_classification_model.pth'', BoundMethod 2 ''state_dict'')]
   \<and> map_sum id saved (train_model_3d demo_torch demo_loaders demo_sizes 1 demo_start) \<noteq>
     Inr [(''models/3d_classification_model.pth'', StateDict 2)]
   \<and> map_sum id params (train_model_3d demo_torch demo_loaders demo_sizes 1 demo_start) = Inr 2
   \<and> map_sum id best_metric (train_model_3d demo_torch demo_loaders demo_sizes 1 demo_start)
     = Inr (1 / 2)"
  by (simp add: demo_3d_defs)

text \<open>
  C4, as stated, fails for the 2D chain: its first step is the spatial resize, the
  tensor conversion comes before the normalization, and it has no rotation.
\<close>

theorem transform_order_counterexample:
  "concat (map tv_kinds (tv_steps data_transform))
     = [SpatialResize, TensorConversion, ChannelInsertion, IntensityScaling, IntensityScaling]
   \<and> hd (concat (map tv_kinds (tv_steps data_transform))) \<noteq> hd (spec_order True)
   \<and> concat (map tv_kinds (tv_steps data_transform)) \<noteq> spec_order True
   \<and> concat (map tv_kinds (tv_steps data_transform)) \<noteq> spec_order False
   \<and> RandomRotation \<notin> set (concat (map tv_kinds (tv_steps data_transform)))"
  by (simp add: data_transform_def spec_order_def)

text \<open>
  C4, amended. The 3D training chain applies ScaleIntensity, AddChannel, Resize,
  RandRotate90, EnsureType in this order, each to the result of the one before, and the
  3D validation chain is the same without the rotation: the order of the
  specification. The 2D chain applies Resize(224), then ToTensor (tensor conversion,
  channel insertion and scaling to \<open>[0, 1]\<close> in one step), then Normalize(0.5, 0.5).
\<close>

theorem transform_order:
  "map monai_kind (monai_steps train_transforms) = spec_order True
   \<and> map monai_kind (monai_steps val_transforms) = spec_order False
   \<and> monai_call q train_transforms img =
       and_then (and_then (and_then (and_then (monai_apply q ScaleIntensity img)
         (monai_apply q AddChannel)) (monai_apply q (Resize [96, 96, 96])))
         (monai_apply q RandRotate90)) (monai_apply q EnsureType)
   \<and> monai_call q val_transforms img =
       and_then (and_then (and_then (monai_apply q ScaleIntensity img)
         (monai_apply q AddChannel)) (monai_apply q (Resize [96, 96, 96])))
         (monai_apply q EnsureType)
   \<and> tv_steps data_transform =
       [transforms_Resize 224, transforms_ToTensor, transforms_Normalize [1 / 2] [1 / 2]]
   \<and> concat (map tv_kinds (tv_steps data_transform))
       = [SpatialResize, TensorConversion, ChannelInsertion, IntensityScaling, IntensityScaling]
   \<and> tv_call data_transform pic =
       and_then (and_then (tv_apply (transforms_Resize 224) pic) (tv_apply transforms_ToTensor))
         (tv_apply (transforms_Normalize [1 / 2] [1 / 2]))"
  by (auto simp: train_transforms_def val_transforms_def data_transform_def spec_order_def
        monai_call_def tv_call_def and_then_def split: sum.splits)

text \<open>
  C5, as stated, fails at four valid positions of the demo dataset: the second image
  is 300 wide and 200 high and comes back with shape \<open>[1, 224, 336]\<close>, the third access
  raises KeyError, the fourth FileNotFoundError, and the fifth, whose image is square
  with 16-bit pixels and whose class name is known, raises TypeError in the
  normalization.
\<close>

theorem getitem_shape_counterexample:
  "(0::int) \<le> 1 \<and> (1::int) < int (DicomDataset_len train_dataset)
   \<and> DicomDataset_getitem demo_files train_dataset 1 = Inr (Tensor Float32 [1, 224, 336], 0)
   \<and> (0::int) \<le> 2 \<and> (2::int) < int (DicomDataset_len train_dataset)
   \<and> DicomDataset_getitem demo_files train_dataset 2 = Inl (KeyError ''Effusion'')
   \<and> (0::int) \<le> 3 \<and> (3::int) < int (DicomDataset_len train_dataset)
   \<and> DicomDataset_getitem demo_files train_dataset 3
       = Inl (FileNotFoundError ''data/siim_small/train/d.dcm'')
   \<and> (0::int) \<le> 4 \<and> (4::int) < int (DicomDataset_len train_dataset)
   \<and> DicomDataset_getitem demo_files train_dataset 4 = Inl TypeError"
  by (simp add: demo_getitem demo_dataset_fields)

lemma monai_shape_3d:
  assumes "length shape = 3" and "0 \<notin> set shape"
  shows "monai_call q train_transforms (Ndarray shape) = Inr (TorchTensor [1, 96, 96, 96])"
    and "monai_call q val_transforms (Ndarray shape) = Inr (TorchTensor [1, 96, 96, 96])"
proof -
  from assms(1) obtain h w d where "shape = [h, w, d]"
    by (cases shape; cases "tl shape"; cases "tl (tl shape)") auto
  with assms(2)
  show "monai_call q train_transforms (Ndarray shape) = Inr (TorchTensor [1, 96, 96, 96])"
    and "monai_call q val_transforms (Ndarray shape) = Inr (TorchTensor [1, 96, 96, 96])"
    by (simp_all add: monai_call_def train_transforms_def val_transforms_def Let_def)
qed

text \<open>
  C5, amended. In the 2D dataset with \<open>data_transform\<close> and the mapping
  \<open>class_to_idx\<close> of a class list, the access at a valid position whose image file is
  readable with 8-bit pixels and whose class name is in the list returns a float tensor
  of shape \<open>[1, h', w']\<close> whose shorter edge is 224, and of the fixed shape
  \<open>[1, 224, 224]\<close> when the image is square, together with a label below the number of
  classes, the position of the class name in the list. In the 3D notebook both chains
  turn every three-dimensional volume without an empty axis into a tensor of shape
  \<open>[1, 96, 96, 96]\<close>, whatever rotation is drawn, and the ten labels of either dataset
  are 0 or 1.
\<close>

theorem getitem_shape_and_label:
  "(0 \<le> idx \<and> idx < int (DicomDataset_len self)
      \<and> files (os_path_join (data_dir self) (fst (labels_df self ! nat idx)))
          = Some \<lparr>px_rows = rows, px_cols = cols, px_dtype = UInt8\<rparr>
      \<and> 0 < rows \<and> 0 < cols
      \<and> classmapper self = class_to_idx cs
      \<and> snd (labels_df self ! nat idx) \<in> set cs
      \<and> transform self = Some data_transform
    \<longrightarrow> (\<exists>h' w' k. DicomDataset_getitem files self idx = Inr (Tensor Float32 [1, h', w'], k)
            \<and> min w' h' = 224
            \<and> (rows = cols \<longrightarrow> h' = 224 \<and> w' = 224)
            \<and> k < length cs \<and> cs ! k = snd (labels_df self ! nat idx)))
   \<and> (length shape = 3 \<and> 0 \<notin> set shape \<longrightarrow>
         monai_call q train_transforms (Ndarray shape) = Inr (TorchTensor [1, 96, 96, 96])
         \<and> monai_call q val_transforms (Ndarray shape) = Inr (TorchTensor [1, 96, 96, 96]))
   \<and> length train_labels = 10 \<and> length val_labels = 10
   \<and> (\<forall>l \<in> set train_labels \<union> set val_labels. l < 2)"
proof -
  have two_d: "\<exists>h' w' k. DicomDataset_getitem files self idx = Inr (Tensor Float32 [1, h', w'], k)
            \<and> min w' h' = 224
            \<and> (rows = cols \<longrightarrow> h' = 224 \<and> w' = 224)
            \<and> k < length cs \<and> cs ! k = snd (labels_df self ! nat idx)"
    if v: "0 \<le> idx" "idx < int (DicomDataset_len self)"
      and f: "files (os_path_join (data_dir self) (fst (labels_df self ! nat idx)))
                = Some \<lparr>px_rows = rows, px_cols = cols, px_dtype = UInt8\<rparr>"
      and r: "0 < rows" "0 < cols"
      and m: "classmapper self = class_to_idx cs"
      and l: "snd (labels_df self ! nat idx) \<in> set cs"
      and t: "transform self = Some data_transform"
  proof -
    from l obtain k where k: "class_to_idx cs (snd (labels_df self ! nat idx)) = Some k"
      using class_to_idx_dom[of cs] by blast
    from data_transform_shape[OF r(2) r(1)] obtain w' h' where
      tr: "tv_call data_transform (PIL Mode_L cols rows) = Inr (Tensor Float32 [1, h', w'])"
      and sh: "min w' h' = 224" "cols = rows \<longrightarrow> w' = 224 \<and> h' = 224"
      by blast
    have "DicomDataset_getitem files self idx = Inr (Tensor Float32 [1, h', w'], k)"
      using getitem_valid[of idx idx self files] v f m k t tr
      by (simp add: DicomDataset_len_def Image_fromarray_def)
    then show ?thesis using class_to_idx_Some[OF k] sh by auto
  qed
  have labels_ok: "length train_labels = 10 \<and> length val_labels = 10
     \<and> (\<forall>l \<in> set train_labels \<union> set val_labels. l < 2)"
    by (simp add: train_labels_def val_labels_def labels_def)
  show ?thesis
    using two_d monai_shape_3d[of shape q] labels_ok by blast
qed

text \<open>
  C5 in the demo dataset: position 0 satisfies the hypotheses with a square 8-bit
  image, and the access returns a float tensor of shape \<open>[1, 224, 224]\<close> with label 1;
  a volume of 256 by 256 by 150 satisfies those of the 3D part.
\<close>

theorem getitem_shape_and_label_witness:
  "(0::int) \<le> 0 \<and> (0::int) < int (DicomDataset_len train_dataset)
   \<and> demo_files (os_path_join (data_dir train_dataset) (fst (labels_df train_dataset ! nat 0)))
       = Some \<lparr>px_rows = 1024, px_cols = 1024, px_dtype = UInt8\<rparr>
   \<and> (0::nat) < 1024
   \<and> classmapper train_dataset = class_to_idx classes
   \<and> snd (labels_df train_dataset ! nat 0) \<in> set classes
   \<and> transform train_dataset = Some data_transform
   \<and> length [256, 256, 150 :: nat] = 3 \<and> 0 \<notin> set [256, 256, 150 :: nat]
   \<and> (\<exists>h' w' k. DicomDataset_getitem demo_files train_dataset 0
            = Inr (Tensor Float32 [1, h', w'], k)
          \<and> h' = 224 \<and> w' = 224 \<and> k < length classes)
   \<and> DicomDataset_getitem demo_files train_dataset 0 = Inr (Tensor Float32 [1, 224, 224], 1)
   \<and> monai_call 1 train_transforms (Ndarray [256, 256, 150]) = Inr (TorchTensor [1, 96, 96, 96])"
proof -
  have h: "(0::int) \<le> 0" "(0::int) < int (DicomDataset_len train_dataset)"
    "demo_files (os_path_join (data_dir train_dataset) (fst (labels_df train_dataset ! nat 0)))
       = Some \<lparr>px_rows = 1024, px_cols = 1024, px_dtype = UInt8\<rparr>"
    "(0::nat) < 1024"
    "classmapper train_dataset = class_to_idx classes"
    "snd (labels_df train_dataset ! nat 0) \<in> set classes"
    "transform train_dataset = Some data_transform"
    "length [256, 256, 150 :: nat] = 3" "0 \<notin> set [256, 256, 150 :: nat]"
    by (simp_all add: demo_dataset_fields demo_rows_def demo_files_def os_path_join_def
          classes_def)
  note th = getitem_shape_and_label[where idx = 0 and self = train_dataset and files = demo_files
      and rows = 1024 and cols = 1024 and cs = classes and shape = "[256, 256, 150]" and q = 1]
  from h th have
    "\<exists>h' w' k. DicomDataset_getitem demo_files train_dataset 0
            = Inr (Tensor Float32 [1, h', w'], k)
          \<and> h' = 224 \<and> w' = 224 \<and> k < length classes"
    by blast
  moreover from h th have
    "monai_call 1 train_transforms (Ndarray [256, 256, 150]) = Inr (TorchTensor [1, 96, 96, 96])"
    by blast
  ultimately show ?thesis using h demo_getitem(1) by blast
qed

text \<open>
  C6, as stated, fails where the image cannot be read either: the fourth row of the
  demo table carries a class name the mapping does not know, and the access raises
  FileNotFoundError, not KeyError, because the image is loaded before the label.
\<close>

theorem unknown_label_error_counterexample:
  "snd (labels_df train_dataset ! 3) = ''Effusion''
   \<and> classmapper train_dataset ''Effusion'' = None
   \<and> DicomDataset_getitem demo_files train_dataset 3
       = Inl (FileNotFoundError ''data/siim_small/train/d.dcm'')
   \<and> DicomDataset_getitem demo_files train_dataset 3 \<noteq> Inl (KeyError ''Effusion'')"
  by (simp add: demo_getitem demo_dataset_fields demo_rows_def class_to_idx_def classes_def
        dict_of_def enumerate_eq_zip upt_rec)

text \<open>
  C6, amended. An access at a valid position (counted from the end when negative) whose
  row carries a class name that is not a key of the class mapping returns no sample:
  it raises KeyError for that name when the row's image file can be read, and the
  error of reading the file otherwise. A batch that holds such a position fails as a
  whole; none comes out short.
\<close>

theorem unknown_label_aborts_access:
  assumes "j = (if idx < 0 then int (DicomDataset_len self) + idx else idx)"
      and "0 \<le> j" and "j < int (DicomDataset_len self)"
      and "classmapper self (snd (labels_df self ! nat j)) = None"
  shows "(\<exists>e. DicomDataset_getitem files self idx = Inl e)
     \<and> (files (os_path_join (data_dir self) (fst (labels_df self ! nat j))) \<noteq> None \<longrightarrow>
          DicomDataset_getitem files self idx = Inl (KeyError (snd (labels_df self ! nat j))))
     \<and> (files (os_path_join (data_dir self) (fst (labels_df self ! nat j))) = None \<longrightarrow>
          DicomDataset_getitem files self idx =
            Inl (FileNotFoundError (os_path_join (data_dir self) (fst (labels_df self ! nat j)))))
     \<and> (idx \<in> set idxs \<longrightarrow> (\<exists>e. fetch files self idxs = Inl e))"
proof -
  have g: "DicomDataset_getitem files self idx =
     (case files (os_path_join (data_dir self) (fst (labels_df self ! nat j))) of
        None \<Rightarrow> Inl (FileNotFoundError (os_path_join (data_dir self) (fst (labels_df self ! nat j))))
      | Some px \<Rightarrow> Inl (KeyError (snd (labels_df self ! nat j))))"
  proof -
    have len: "DicomDataset_len self = length (labels_df self)"
      by (simp add: DicomDataset_len_def)
    note gv = getitem_valid[OF assms(1)[unfolded len] assms(2) assms(3)[unfolded len], of files]
    show ?thesis unfolding gv assms(4) by (simp split: option.splits)
  qed
  then have fails: "\<exists>e. DicomDataset_getitem files self idx = Inl e"
    by (auto split: option.splits)
  then have "idx \<in> set idxs \<longrightarrow> (\<exists>e. fetch files self idxs = Inl e)"
    using fetch_fails by blast
  with g fails show ?thesis by (auto split: option.splits)
qed

text \<open>
  C6 in the demo dataset: the third row has a readable image and an unknown class
  name; the access raises KeyError and the batch of positions 0 and 2 fails.
\<close>

theorem unknown_label_aborts_access_witness:
  "(2::int) = (if (2::int) < 0 then int (DicomDataset_len train_dataset) + 2 else 2)
   \<and> (0::int) \<le> 2 \<and> (2::int) < int (DicomDataset_len train_dataset)
   \<and> classmapper train_dataset (snd (labels_df train_dataset ! nat 2)) = None
   \<and> demo_files (os_path_join (data_dir train_dataset) (fst (labels_df train_dataset ! nat 2)))
       \<noteq> None
   \<and> DicomDataset_getitem demo_files train_dataset 2 = Inl (KeyError ''Effusion'')
   \<and> (\<exists>e. fetch demo_files train_dataset [0, 2] = Inl e)"
proof -
  have h1: "(2::int) = (if (2::int) < 0 then int (DicomDataset_len train_dataset) + 2 else 2)"
    by simp
  have h2: "(0::int) \<le> 2" by simp
  have h3: "(2::int) < int (DicomDataset_len train_dataset)"
    by (simp add: demo_dataset_fields)
  have h4: "classmapper train_dataset (snd (labels_df train_dataset ! nat 2)) = None"
    by (simp add: demo_dataset_fields demo_rows_def class_to_idx_def classes_def
        dict_of_def enumerate_eq_zip upt_rec)
  have h5: "demo_files (os_path_join (data_dir train_dataset)
              (fst (labels_df train_dataset ! nat 2))) \<noteq> None"
    by (simp add: demo_dataset_fields demo_rows_def demo_files_def os_path_join_def)
  note th = unknown_label_aborts_access[OF h1 h2 h3 h4, of demo_files "[0, 2]"]
  have "snd (labels_df train_dataset ! nat 2) = ''Effusion''"
    by (simp add: demo_dataset_fields demo_rows_def)
  then show ?thesis using h1 h2 h3 h4 h5 th by simp
qed

text \<open>
  C7. The batches of a validation phase leave the parameters and the optimizer state as
  they were, and the gradients are only zeroed, once per batch; the result does not
  depend on what \<open>loss.backward()\<close> and \<open>optimizer.step()\<close> would do, so neither is
  executed. The forward passes of a validation phase run with gradient tracking off
  (the result depends on the network's behaviour with tracking off only), those of a
  training phase with tracking on. A whole validation phase of any epoch, including the
  checkpoint decision, leaves the parameters and the optimizer state unchanged and the
  module in evaluation mode.
\<close>

theorem val_phase_leaves_parameters:
  "params (fst (run_batches_3d T Val bs acc)) = params (fst acc)
   \<and> opt_state (fst (run_batches_3d T Val bs acc)) = opt_state (fst acc)
   \<and> grads (fst (run_batches_3d T Val bs acc)) = (zero_grad T ^^ length bs) (grads (fst acc))
   \<and> run_batches_3d (T\<lparr>backward := bw, opt_step := st\<rparr>) Val bs acc = run_batches_3d T Val bs acc
   \<and> ((\<forall>tr m b. f tr False m b = model_fwd T tr False m b) \<longrightarrow>
        run_batches_3d (T\<lparr>model_fwd := f\<rparr>) Val bs acc = run_batches_3d T Val bs acc)
   \<and> ((\<forall>tr m b. f tr True m b = model_fwd T tr True m b) \<longrightarrow>
        run_batches_3d (T\<lparr>model_fwd := f\<rparr>) Train bs acc = run_batches_3d T Train bs acc)
   \<and> (run_phase T L D e Val s = Inr s' \<longrightarrow>
        params s' = params s \<and> opt_state s' = opt_state s \<and> \<not> training s')"
proof -
  have v: "(\<forall>tr m b. f tr False m b = model_fwd T tr False m b) \<longrightarrow>
        run_batches_3d (T\<lparr>model_fwd := f\<rparr>) Val bs acc = run_batches_3d T Val bs acc"
    using run_batches_3d_grad_mode[of f Val T bs acc] by simp
  have t: "(\<forall>tr m b. f tr True m b = model_fwd T tr True m b) \<longrightarrow>
        run_batches_3d (T\<lparr>model_fwd := f\<rparr>) Train bs acc = run_batches_3d T Train bs acc"
    using run_batches_3d_grad_mode[of f Train T bs acc] by simp
  have p: "run_phase T L D e Val s = Inr s' \<longrightarrow>
        params s' = params s \<and> opt_state s' = opt_state s \<and> \<not> training s'"
  proof
    assume "run_phase T L D e Val s = Inr s'"
    then obtain s1 l a where ps: "phase_stats T L D e Val s = Inr (s1, l, a)"
      and s': "s' = checkpoint s1 a"
      unfolding run_phase_Inr by auto
    show "params s' = params s \<and> opt_state s' = opt_state s \<and> \<not> training s'"
      using phase_stats_val[OF ps] phase_stats_frame(6)[OF ps] s'
      by (simp add: checkpoint_machine)
  qed
  show ?thesis
    using v t p by (simp add: run_batches_3d_val run_batches_3d_val_no_update)
qed

text \<open>
  C7 in the demo run: a network that answers differently with gradient tracking on
  gives the same validation batches, and the validation phase run after the first
  epoch keeps the parameter value 2.
\<close>

theorem val_phase_leaves_parameters_witness:
  "(\<forall>tr m b. (\<lambda>tr ge m b. if ge then m + 100 else m) tr False m b
              = model_fwd demo_torch tr False m (b :: nat \<times> real))
   \<and> run_batches_3d (demo_torch\<lparr>model_fwd := (\<lambda>tr ge m b. if ge then m + 100 else m)\<rparr>)
        Val [(10, 1 / 4)] (demo_start, 0, 0)
      = run_batches_3d demo_torch Val [(10, 1 / 4)] (demo_start, 0, 0)
   \<and> run_phase demo_torch demo_loaders demo_sizes 0 Val (demo_after 1)
      = Inr (projr (run_phase demo_torch demo_loaders demo_sizes 0 Val (demo_after 1)))
   \<and> params (projr (run_phase demo_torch demo_loaders demo_sizes 0 Val (demo_after 1)))
      = params (demo_after 1)
   \<and> params (demo_after 1) = 2"
proof -
  have h1: "\<forall>tr m b. (\<lambda>tr ge m b. if ge then m + 100 else m) tr False m b
              = model_fwd demo_torch tr False m (b :: nat \<times> real)"
    by (simp add: demo_torch_def)
  have h2: "run_phase demo_torch demo_loaders demo_sizes 0 Val (demo_after 1)
      = Inr (projr (run_phase demo_torch demo_loaders demo_sizes 0 Val (demo_after 1)))"
    by (simp add: demo_after_def demo_3d_defs)
  have p: "params (demo_after 1) = 2"
    by (simp add: demo_after_def demo_3d_defs)
  note th = val_phase_leaves_parameters[where T = demo_torch and bs = "[(10, 1 / 4)]"
      and acc = "(demo_start, 0, 0)" and f = "\<lambda>tr ge m b. if ge then m + 100 else m"
      and L = demo_loaders and D = demo_sizes and e = 0 and s = "demo_after 1"
      and s' = "projr (run_phase demo_torch demo_loaders demo_sizes 0 Val (demo_after 1))"]
  show ?thesis using h1 h2 p th by blast
qed

text \<open>
  C8. The checkpoint decision sets \<open>best_metric\<close> to the maximum of its previous value
  and the epoch's validation accuracy; the batches of either phase and a whole training
  phase leave it unchanged; so a validation phase ends with that maximum, and an epoch
  and any sequence of epochs end with a value not below the one they started with. A
  completed run ends with a value of at least \<minus>1, the initial one.
\<close>

theorem best_metric_never_decreases:
  "best_metric (checkpoint s a) = max (best_metric s) a
   \<and> best_metric (fst (run_batches_3d T ph bs acc)) = best_metric (fst acc)
   \<and> (phase_stats T L D e Val s = Inr (s1, l, a) \<longrightarrow>
        run_phase T L D e Val s = Inr (checkpoint s1 a)
        \<and> best_metric (checkpoint s1 a) = max (best_metric s) a)
   \<and> (run_phase T L D e Train s = Inr s2 \<longrightarrow> best_metric s2 = best_metric s)
   \<and> (epoch_body T L D n e s = Inr s3 \<longrightarrow> best_metric s \<le> best_metric s3)
   \<and> (epochs_loop T L D n es s = Inr s4 \<longrightarrow> best_metric s \<le> best_metric s4)
   \<and> (train_model_3d T L D n s = Inr s5 \<longrightarrow> - 1 \<le> best_metric s5)"
proof -
  have c3: "phase_stats T L D e Val s = Inr (s1, l, a) \<longrightarrow>
        run_phase T L D e Val s = Inr (checkpoint s1 a)
        \<and> best_metric (checkpoint s1 a) = max (best_metric s) a"
    by (auto simp: run_phase_def checkpoint_best dest: phase_stats_frame(1))
  have c4: "run_phase T L D e Train s = Inr s2 \<longrightarrow> best_metric s2 = best_metric s"
    by (auto simp: run_phase_Inr dest: phase_stats_frame(1))
  have c5: "epoch_body T L D n e s = Inr s3 \<longrightarrow> best_metric s \<le> best_metric s3"
    by (auto dest!: epoch_body_effect)
  have c6: "epochs_loop T L D n es s = Inr s4 \<longrightarrow> best_metric s \<le> best_metric s4"
    by (auto dest: epochs_loop_grows)
  have c7: "train_model_3d T L D n s = Inr s5 \<longrightarrow> - 1 \<le> best_metric s5"
  proof
    assume "train_model_3d T L D n s = Inr s5"
    then obtain s' where "epochs_loop T L D n [0..<n] (init_3d s) = Inr s'"
      and "best_metric s5 = best_metric s'"
      by (auto simp: train_model_3d_def split: sum.splits)
    then show "- 1 \<le> best_metric s5"
      using epochs_loop_grows[of T L D n "[0..<n]" "init_3d s" s'] by (simp add: init_3d_def)
  qed
  show ?thesis
    using c3 c4 c5 c6 c7 by (simp add: checkpoint_best run_batches_3d_frame)
qed

text \<open>
  C8 in the demo run: the third epoch (accuracy 0.6) leaves the best metric at 0.7.
\<close>

theorem best_metric_never_decreases_witness:
  "epoch_body demo_torch demo_loaders demo_sizes 3 2 (demo_after 2) = Inr (demo_after 3)
   \<and> best_metric (demo_after 2) \<le> best_metric (demo_after 3)
   \<and> best_metric (demo_after 2) = 7 / 10
   \<and> best_metric (checkpoint (demo_after 2) (3 / 5)) = 7 / 10"
proof -
  have b: "best_metric (demo_after 2) = 7 / 10"
    by (simp add: demo_after_def demo_3d_defs)
  note th = best_metric_never_decreases[where s = "demo_after 2" and a = "3 / 5"
      and T = demo_torch and L = demo_loaders and D = demo_sizes and e = 2 and n = 3
      and ?s3.0 = "demo_after 3" and ph = Train and bs = "[]" and acc = "(demo_start, 0, 0)"
      and ?s1.0 = "demo_after 2" and l = 0 and ?s2.0 = "demo_after 2" and es = "[]"
      and ?s4.0 = "demo_after 2" and ?s5.0 = "demo_after 2"]
  from th demo_after_simps(2)
  have le: "best_metric (demo_after 2) \<le> best_metric (demo_after 3)" by blast
  from th
  have mx: "best_metric (checkpoint (demo_after 2) (3 / 5)) = max (best_metric (demo_after 2)) (3 / 5)"
    by blast
  show ?thesis using le mx b demo_after_simps(2) by simp
qed

text \<open>
  C9. \<open>best_metric\<close> starts at \<minus>1 and an accuracy is a count over a size, hence not
  negative: whenever the first epoch completes, its validation phase has called
  \<open>torch.save\<close> once, printed \<open>'Saved best new model'\<close> last, and made the epoch's
  validation accuracy the best metric. The first epoch completes whenever the two
  dataset sizes are not zero and the two loaders yield a batch. A completed run of at
  least one epoch has this call as its first.
\<close>

theorem first_epoch_always_saves:
  "(epoch_body T L D n 0 (init_3d s) = Inr s1 \<longrightarrow>
      (\<exists>obj. saved s1 = saved s @ [(''models/3d_classification_model.pth'', obj)])
      \<and> last (stdout s1) = SavedBest
      \<and> val_accs (drop (length (stdout s)) (stdout s1)) = [best_metric s1]
      \<and> 0 \<le> best_metric s1)
   \<and> (D Train \<noteq> 0 \<and> D Val \<noteq> 0 \<and> L Train 0 \<noteq> [] \<and> L Val 0 \<noteq> [] \<longrightarrow>
        (\<exists>s1. epoch_body T L D n 0 (init_3d s) = Inr s1))
   \<and> (0 < n \<longrightarrow> train_model_3d T L D n s = Inr s' \<longrightarrow>
        (\<exists>obj rest. saved s' = saved s @ (''models/3d_classification_model.pth'', obj) # rest))"
proof -
  have first: "(\<exists>obj. saved s1 = saved s @ [(''models/3d_classification_model.pth'', obj)])
      \<and> last (stdout s1) = SavedBest
      \<and> val_accs (drop (length (stdout s)) (stdout s1)) = [best_metric s1]
      \<and> 0 \<le> best_metric s1"
    if b: "epoch_body T L D n 0 (init_3d s) = Inr s1" for s1
  proof -
    from epoch_body_effect[OF b] obtain l1 a1 l2 a2 where
      a2: "0 \<le> a2" and bm: "best_metric s1 = max (best_metric (init_3d s)) a2"
      and out: "stdout s1 = stdout (init_3d s) @ [EpochBanner 0 (n - 1), Dashes,
          PhaseStats Train l1 a1, PhaseStats Val l2 a2]
          @ (if a2 > best_metric (init_3d s) then [SavedBest] else [])"
      and sv: "saved s1 = saved (init_3d s) @ (if a2 > best_metric (init_3d s)
          then [(''models/3d_classification_model.pth'', BoundMethod (params s1) ''state_dict'')]
          else [])"
      by blast
    have gt: "a2 > best_metric (init_3d s)" using a2 by (simp add: init_3d_def)
    have i: "stdout (init_3d s) = stdout s" "saved (init_3d s) = saved s"
      by (simp_all add: init_3d_def)
    have "best_metric s1 = a2" using bm gt by simp
    then show ?thesis
      using sv out gt a2 unfolding i by (simp add: val_accs_simps)
  qed
  have total: "D Train \<noteq> 0 \<and> D Val \<noteq> 0 \<and> L Train 0 \<noteq> [] \<and> L Val 0 \<noteq> [] \<longrightarrow>
        (\<exists>s1. epoch_body T L D n 0 (init_3d s) = Inr s1)"
    using epoch_body_total[where D = D and L = L and e = 0] by blast
  have whole: "0 < n \<longrightarrow> train_model_3d T L D n s = Inr s' \<longrightarrow>
        (\<exists>obj rest. saved s' = saved s @ (''models/3d_classification_model.pth'', obj) # rest)"
  proof (intro impI)
    assume n: "0 < n" and run: "train_model_3d T L D n s = Inr s'"
    from run obtain sf where loop: "epochs_loop T L D n [0..<n] (init_3d s) = Inr sf"
      and sf: "saved s' = saved sf"
      by (auto simp: train_model_3d_def split: sum.splits)
    have "[0..<n] = 0 # [1..<n]" using n by (simp add: upt_conv_Cons)
    with loop obtain s1 where b: "epoch_body T L D n 0 (init_3d s) = Inr s1"
      and rest: "epochs_loop T L D n [1..<n] s1 = Inr sf"
      by (auto split: sum.splits)
    from first[OF b] obtain obj where
      "saved s1 = saved s @ [(''models/3d_classification_model.pth'', obj)]" by blast
    moreover from epochs_loop_grows[OF rest] obtain more where "saved sf = saved s1 @ more"
      by blast
    ultimately show
      "\<exists>obj rest. saved s' = saved s @ (''models/3d_classification_model.pth'', obj) # rest"
      using sf by simp
  qed
  show ?thesis using first total whole by blast
qed

text \<open>
  C9 in the demo run: the first epoch completes and saves once.
\<close>

theorem first_epoch_always_saves_witness:
  "demo_sizes Train \<noteq> 0 \<and> demo_sizes Val \<noteq> 0
   \<and> demo_loaders Train 0 \<noteq> [] \<and> demo_loaders Val 0 \<noteq> []
   \<and> epoch_body demo_torch demo_loaders demo_sizes 3 0 (init_3d demo_start) = Inr (demo_after 1)
   \<and> saved (demo_after 1) = [(''models/3d_classification_model.pth'', BoundMethod 2 ''state_dict'')]
   \<and> (\<exists>obj. saved (demo_after 1)
         = saved demo_start @ [(''models/3d_classification_model.pth'', obj)])
   \<and> best_metric (demo_after 1) = 1 / 2"
proof -
  have h: "demo_sizes Train \<noteq> 0" "demo_sizes Val \<noteq> 0"
    "demo_loaders Train 0 \<noteq> []" "demo_loaders Val 0 \<noteq> []"
    by (simp_all add: demo_sizes_def demo_loaders_def)
  have e: "epoch_body demo_torch demo_loaders demo_sizes 3 0 (init_3d demo_start) = Inr (demo_after 1)"
    "saved (demo_after 1) = [(''models/3d_classification_model.pth'', BoundMethod 2 ''state_dict'')]"
    "best_metric (demo_after 1) = 1 / 2"
    by (simp_all add: demo_after_def demo_3d_defs)
  note th = first_epoch_always_saves[where D = demo_sizes and L = demo_loaders
      and T = demo_torch and n = 3 and s = demo_start and ?s1.0 = "demo_after 1"]
  from th e(1) have "\<exists>obj. saved (demo_after 1)
         = saved demo_start @ [(''models/3d_classification_model.pth'', obj)]"
    by blast
  then show ?thesis using h e by blast
qed

text \<open>
  C10, at a failing input. The loader yields exactly the ten samples of a dataset of
  length 10, in batches of 4 and 6 with mean losses 1 and 0.5. The accuracy the loop
  prints, 3/10, is the per-sample accuracy, but the loss it prints is
  \<open>(1 + 4 + 0.5 + 3) / 10 = 17/20\<close>, not the per-sample average \<open>(4 + 3) / 10 = 7/10\<close>:
  the precondition of the claim holds and the loss is still not the average.
\<close>

theorem train_model_2d_loss_not_sample_mean:
  "sum_list (map (size0 demo_torch) (demo_loader_two 0)) = 10
   \<and> map_sum id stdout (train_model_2d demo_torch demo_loader_two 10 1 demo_start_2d)
     = Inr [EpochStats (17 / 20) (3 / 10)]
   \<and> weighted_mean_loss
       (batch_log_2d demo_torch (demo_loader_two 0)
          (demo_start_2d\<lparr>loss_over_time := [], training := True\<rparr>, 0, 0)) 10 = 7 / 10"
  by (simp add: demo_2d_defs upt_small)

end
